theory Spec2Isabelle
  imports Complex_Main
begin

section \<open>Countdown timer frame generator: a shallow embedding of \<^verbatim>\<open>generate_countdown.py\<close>\<close>

text \<open>
  Python's unbounded integers are \<^typ>\<open>int\<close>; \<^verbatim>\<open>//\<close> and \<^verbatim>\<open>%\<close> with a positive divisor
  are \<open>div\<close> and \<open>mod\<close> of \<^typ>\<open>int\<close> (both round towards minus infinity).  Strings are
  \<^typ>\<open>string\<close>; every string of the program is ASCII.  Exceptions are values of
  \<open>error\<close>, and a computation that may raise returns \<open>error + 'a\<close>.
\<close>

datatype error =
    ValueError
  | IndexError
  | ZeroDivisionError
  | OverflowError
  | UnboundLocalError
  | SystemExit int

subsection \<open>Integer formatting (\<^verbatim>\<open>str(n)\<close>, \<^verbatim>\<open>f"{n:02d}"\<close>, \<^verbatim>\<open>f"{n:08d}"\<close>)\<close>

definition digit_char :: "nat \<Rightarrow> char" where
  "digit_char d = ''0123456789'' ! (d mod 10)"

fun dec_nat :: "nat \<Rightarrow> string" where
  "dec_nat n = (if n < 10 then [digit_char n] else dec_nat (n div 10) @ [digit_char (n mod 10)])"

declare dec_nat.simps [simp del]

text \<open>\<^verbatim>\<open>str(n)\<close> for an integer.\<close>

definition py_str :: "int \<Rightarrow> string" where
  "py_str n = (if n < 0 then CHR ''-'' # dec_nat (nat (- n)) else dec_nat (nat n))"

text \<open>
  The format specification \<^verbatim>\<open>0wd\<close>: the sign first, then zeros up to the total width \<open>w\<close>,
  then the decimal digits; a number wider than \<open>w\<close> is not cut.
\<close>

definition format_0d :: "nat \<Rightarrow> int \<Rightarrow> string" where
  "format_0d w n =
     (let sign = (if n < 0 then ''-'' else '''');
          ds = dec_nat (nat \<bar>n\<bar>)
      in sign @ replicate (w - length sign - length ds) (CHR ''0'') @ ds)"

subsection \<open>Time formatter\<close>

definition format_time :: "int \<Rightarrow> string \<times> string \<times> string" where
  "format_time total_seconds =
     (let h = total_seconds div 3600;
          m = (total_seconds mod 3600) div 60;
          s = total_seconds mod 60
      in (format_0d 2 h, format_0d 2 m, format_0d 2 s))"

text \<open>Reading a decimal numeral back, used to state what the formatted strings denote.\<close>

definition is_digit :: "char \<Rightarrow> bool" where
  "is_digit c = (c \<in> set ''0123456789'')"

definition digit_val :: "char \<Rightarrow> nat" where
  "digit_val c = of_char c - 48"

definition read_dec :: "string \<Rightarrow> nat" where
  "read_dec cs = foldl (\<lambda>acc c. 10 * acc + digit_val c) 0 cs"

subsection \<open>Binary64 floating point\<close>

text \<open>
  A finite Python float is represented by the rational number it denotes (the sign of a
  zero is not represented: the program only compares its floats with \<open>0\<close>, adds and
  multiplies them and truncates them).  \<open>round64\<close> rounds a rational to the nearest
  binary64 value, ties to even, with gradual underflow; a rounded magnitude of
  \<open>2 ^ 1024\<close> or more is an overflow.
\<close>

function bitlen :: "int \<Rightarrow> int" where
  "bitlen n = (if n \<le> 0 then 0 else 1 + bitlen (n div 2))"
  by pat_completeness auto
termination
  by (relation "measure nat") auto

declare bitlen.simps [simp del]

definition pow2 :: "int \<Rightarrow> rat" where
  "pow2 e = (if 0 \<le> e then 2 ^ nat e else 1 / 2 ^ nat (- e))"

text \<open>The exponent \<open>e\<close> with \<open>2 ^ e \<le> x < 2 ^ (e + 1)\<close>, for a positive \<open>x\<close>.\<close>

definition binade :: "rat \<Rightarrow> int" where
  "binade x =
     (if 1 \<le> x then bitlen \<lfloor>x\<rfloor> - 1 else - bitlen (\<lceil>1 / x\<rceil> - 1))"

definition round_half_even :: "rat \<Rightarrow> int" where
  "round_half_even x =
     (let f = \<lfloor>x\<rfloor>; d = x - of_int f
      in if d < 1 / 2 then f else if 1 / 2 < d then f + 1 else if even f then f else f + 1)"

text \<open>The exponent of the unit in the last place: 53 significant bits, least exponent \<open>-1022\<close>.\<close>

definition ulp_exp :: "rat \<Rightarrow> int" where
  "ulp_exp x = max (binade \<bar>x\<bar>) (- 1022) - 52"

definition round64 :: "rat \<Rightarrow> rat" where
  "round64 x =
     (if x = 0 then 0
      else of_int (round_half_even (x / pow2 (ulp_exp x))) * pow2 (ulp_exp x))"

datatype py_float = Fin rat | PosInf | NegInf | NaN

definition fl :: "rat \<Rightarrow> py_float" where
  "fl x = (let r = round64 x
           in if pow2 1024 \<le> r then PosInf else if r \<le> - pow2 1024 then NegInf else Fin r)"

text \<open>\<^verbatim>\<open>float(n)\<close>, as applied to the integer operand of a mixed operation.\<close>

definition float_of_int :: "int \<Rightarrow> error + py_float" where
  "float_of_int n = (case fl (of_int n) of Fin r \<Rightarrow> Inr (Fin r) | _ \<Rightarrow> Inl OverflowError)"

text \<open>\<^verbatim>\<open>a / b\<close> on integers: the correctly rounded quotient.\<close>

definition py_truediv :: "int \<Rightarrow> int \<Rightarrow> error + py_float" where
  "py_truediv a b =
     (if b = 0 then Inl ZeroDivisionError
      else case fl (of_int a / of_int b) of Fin r \<Rightarrow> Inr (Fin r) | _ \<Rightarrow> Inl OverflowError)"

fun fadd :: "py_float \<Rightarrow> py_float \<Rightarrow> py_float" where
  "fadd (Fin a) (Fin b) = fl (a + b)"
| "fadd NaN _ = NaN"
| "fadd _ NaN = NaN"
| "fadd PosInf NegInf = NaN"
| "fadd NegInf PosInf = NaN"
| "fadd PosInf _ = PosInf"
| "fadd _ PosInf = PosInf"
| "fadd NegInf _ = NegInf"
| "fadd _ NegInf = NegInf"

fun fneg :: "py_float \<Rightarrow> py_float" where
  "fneg (Fin a) = Fin (- a)"
| "fneg PosInf = NegInf"
| "fneg NegInf = PosInf"
| "fneg NaN = NaN"

definition fsub :: "py_float \<Rightarrow> py_float \<Rightarrow> py_float" where
  "fsub a b = fadd a (fneg b)"

text \<open>An infinity of the given sign (\<open>True\<close> is positive) times a finite number.\<close>

definition scale_inf :: "bool \<Rightarrow> rat \<Rightarrow> py_float" where
  "scale_inf pos b = (if b = 0 then NaN else if (0 < b) = pos then PosInf else NegInf)"

fun fmul :: "py_float \<Rightarrow> py_float \<Rightarrow> py_float" where
  "fmul (Fin a) (Fin b) = fl (a * b)"
| "fmul NaN _ = NaN"
| "fmul _ NaN = NaN"
| "fmul PosInf (Fin b) = scale_inf True b"
| "fmul NegInf (Fin b) = scale_inf False b"
| "fmul (Fin a) PosInf = scale_inf True a"
| "fmul (Fin a) NegInf = scale_inf False a"
| "fmul PosInf PosInf = PosInf"
| "fmul NegInf NegInf = PosInf"
| "fmul PosInf NegInf = NegInf"
| "fmul NegInf PosInf = NegInf"

text \<open>The comparison \<^verbatim>\<open>x > 0\<close>.\<close>

fun fgt0 :: "py_float \<Rightarrow> bool" where
  "fgt0 (Fin a) = (0 < a)"
| "fgt0 PosInf = True"
| "fgt0 NegInf = False"
| "fgt0 NaN = False"

text \<open>\<^verbatim>\<open>int(x)\<close> on a float: truncation towards zero.\<close>

fun py_int :: "py_float \<Rightarrow> error + int" where
  "py_int (Fin a) = Inr (if 0 \<le> a then \<lfloor>a\<rfloor> else \<lceil>a\<rceil>)"
| "py_int PosInf = Inl OverflowError"
| "py_int NegInf = Inl OverflowError"
| "py_int NaN = Inl ValueError"

subsection \<open>Sequencing computations that may raise\<close>

definition ebind :: "error + 'a \<Rightarrow> ('a \<Rightarrow> error + 'b) \<Rightarrow> error + 'b" where
  "ebind m f = (case m of Inl e \<Rightarrow> Inl e | Inr x \<Rightarrow> f x)"

text \<open>A loop that builds a list, left to right; the first exception ends it.\<close>

fun traverse :: "('a \<Rightarrow> error + 'b) \<Rightarrow> 'a list \<Rightarrow> error + 'b list" where
  "traverse f [] = Inr []"
| "traverse f (x # xs) = ebind (f x) (\<lambda>y. ebind (traverse f xs) (\<lambda>ys. Inr (y # ys)))"

text \<open>Indexing a tuple or a list: a negative index counts from the end.\<close>

definition py_index :: "'a list \<Rightarrow> int \<Rightarrow> error + 'a" where
  "py_index xs i =
     (if 0 \<le> i \<and> i < int (length xs) then Inr (xs ! nat i)
      else if i < 0 \<and> - int (length xs) \<le> i then Inr (xs ! nat (int (length xs) + i))
      else Inl IndexError)"

text \<open>\<^verbatim>\<open>a // b\<close> and \<^verbatim>\<open>a % b\<close> on integers.\<close>

definition py_floordiv :: "int \<Rightarrow> int \<Rightarrow> error + int" where
  "py_floordiv a b = (if b = 0 then Inl ZeroDivisionError else Inr (a div b))"

definition py_mod :: "int \<Rightarrow> int \<Rightarrow> error + int" where
  "py_mod a b = (if b = 0 then Inl ZeroDivisionError else Inr (a mod b))"

text \<open>\<^verbatim>\<open>range(a, b, -1)\<close> and \<^verbatim>\<open>range(n)\<close>.\<close>

definition range_down :: "int \<Rightarrow> int \<Rightarrow> int list" where
  "range_down a b = rev [b + 1..a]"

definition range_upto :: "int \<Rightarrow> int list" where
  "range_upto n = [0..n - 1]"

subsection \<open>Strings and paths\<close>

text \<open>\<^verbatim>\<open>sep.join(xs)\<close>.\<close>

fun join :: "string \<Rightarrow> string list \<Rightarrow> string" where
  "join sep [] = []"
| "join sep [x] = x"
| "join sep (x # y # ys) = x @ sep @ join sep (y # ys)"

text \<open>The format specification \<^verbatim>\<open>ws\<close> of a string: padded with spaces on the right.\<close>

definition ljust :: "nat \<Rightarrow> string \<Rightarrow> string" where
  "ljust w s = s @ replicate (w - length s) (CHR '' '')"

text \<open>\<^verbatim>\<open>os.path.join(a, b)\<close> on a POSIX system.\<close>

definition path_join :: "string \<Rightarrow> string \<Rightarrow> string" where
  "path_join a b =
     (if b \<noteq> [] \<and> hd b = CHR ''/'' then b
      else if a = [] \<or> last a = CHR ''/'' then a @ b
      else a @ ''/'' @ b)"

subsection \<open>Dictionaries\<close>

text \<open>
  A dictionary is the list of its items in insertion order, with distinct keys.  Storing
  under a key that is present replaces the value and keeps the position; a new key goes
  to the end.
\<close>

fun dict_set :: "('k \<times> 'v) list \<Rightarrow> 'k \<Rightarrow> 'v \<Rightarrow> ('k \<times> 'v) list" where
  "dict_set [] k v = [(k, v)]"
| "dict_set ((k', v') # d) k v = (if k' = k then (k, v) # d else (k', v') # dict_set d k v)"

text \<open>A dictionary display \<^verbatim>\<open>{k1: v1, k2: v2, ...}\<close> stores its items from left to right.\<close>

definition dict_of :: "('k \<times> 'v) list \<Rightarrow> ('k \<times> 'v) list" where
  "dict_of items = foldl (\<lambda>d (k, v). dict_set d k v) [] items"

text \<open>\<^verbatim>\<open>{**a, **b}\<close>.\<close>

definition dict_merge :: "('k \<times> 'v) list \<Rightarrow> ('k \<times> 'v) list \<Rightarrow> ('k \<times> 'v) list" where
  "dict_merge a b = foldl (\<lambda>d (k, v). dict_set d k v) (dict_of a) b"

definition dict_get :: "('k \<times> 'v) list \<Rightarrow> 'k \<Rightarrow> 'v option" where
  "dict_get d k = map_of d k"

definition dict_keys :: "('k \<times> 'v) list \<Rightarrow> 'k list" where
  "dict_keys d = map fst d"

subsection \<open>Colours\<close>

text \<open>A colour of a style is a string or a tuple (\<^verbatim>\<open>str | tuple\<close>).\<close>

datatype color = Str string | Tup "int list"

definition hex_val :: "char \<Rightarrow> nat option" where
  "hex_val c =
     (let n = (of_char c :: nat)
      in if 48 \<le> n \<and> n \<le> 57 then Some (n - 48)
         else if 97 \<le> n \<and> n \<le> 102 then Some (n - 87)
         else if 65 \<le> n \<and> n \<le> 70 then Some (n - 55)
         else None)"

definition is_space :: "char \<Rightarrow> bool" where
  "is_space c = (let n = (of_char c :: nat) in (9 \<le> n \<and> n \<le> 13) \<or> (28 \<le> n \<and> n \<le> 32))"

text \<open>
  Hexadecimal digits with single underscores between them; the flag says that the
  character before was a digit.
\<close>

fun hex_body :: "nat \<Rightarrow> bool \<Rightarrow> string \<Rightarrow> nat option" where
  "hex_body acc prev [] = (if prev then Some acc else None)"
| "hex_body acc prev (c # cs) =
     (if c = CHR ''_'' then (if prev then hex_body acc False cs else None)
      else case hex_val c of None \<Rightarrow> None | Some d \<Rightarrow> hex_body (16 * acc + d) True cs)"

text \<open>
  \<^verbatim>\<open>int(s, 16)\<close> on an ASCII string: white space around the numeral, an optional sign, an
  optional prefix \<^verbatim>\<open>0x\<close> (after which one underscore may stand), then the digits.
\<close>

definition int16 :: "string \<Rightarrow> error + int" where
  "int16 s =
     (let s1 = rev (dropWhile is_space (rev (dropWhile is_space s)));
          neg = (s1 \<noteq> [] \<and> hd s1 = CHR ''-'');
          s2 = (if s1 \<noteq> [] \<and> (hd s1 = CHR ''-'' \<or> hd s1 = CHR ''+'') then tl s1 else s1);
          s3 = (if take 2 s2 = ''0x'' \<or> take 2 s2 = ''0X''
                then (if take 1 (drop 2 s2) = ''_'' then drop 3 s2 else drop 2 s2)
                else s2)
      in case hex_body 0 False s3 of
           None \<Rightarrow> Inl ValueError
         | Some n \<Rightarrow> Inr (if neg then - int n else int n))"

definition hex_to_rgb :: "color \<Rightarrow> error + int list" where
  "hex_to_rgb c =
     (case c of
        Tup t \<Rightarrow> Inr t
      | Str s \<Rightarrow>
          (let c' = dropWhile (\<lambda>x. x = CHR ''#'') s
           in traverse (\<lambda>i. int16 (take 2 (drop i c'))) [0, 2, 4]))"

text \<open>Truth values of the optional fields of a style, as \<^verbatim>\<open>and\<close> tests them.\<close>

definition truthy_color :: "color option \<Rightarrow> bool" where
  "truthy_color c = (case c of None \<Rightarrow> False | Some (Str s) \<Rightarrow> s \<noteq> [] | Some (Tup t) \<Rightarrow> t \<noteq> [])"

definition truthy_tuple :: "'a list option \<Rightarrow> bool" where
  "truthy_tuple t = (case t of None \<Rightarrow> False | Some xs \<Rightarrow> xs \<noteq> [])"

subsection \<open>Style catalog: digital styles\<close>

record StyleConfig =
  name :: string
  description :: string
  width :: int
  height :: int
  bg_color :: color
  text_color :: color
  font_size :: int
  font_name :: "string option"
  separator :: string
  show_labels :: bool
  label_color :: color
  border :: bool
  border_color :: color
  border_width :: int
  rounded_bg :: bool
  digit_bg_color :: "color option"
  glow :: bool
  progress_bar :: bool
  progress_color :: color
  gradient_bg :: bool
  gradient_colors :: "color list option"
  circle_progress :: bool
  circle_color :: color
  monospace :: bool

definition style_modern :: StyleConfig where
  "style_modern = \<lparr>
     name = ''modern'',
     description = ''Clean modern look with dark background and cyan text'',
     width = 1920,
     height = 1080,
     bg_color = Str ''#0a0a0a'',
     text_color = Str ''#00e5ff'',
     font_size = 280,
     font_name = None,
     separator = '':'',
     show_labels = True,
     label_color = Str ''#555555'',
     border = False,
     border_color = Str ''#000'',
     border_width = 0,
     rounded_bg = True,
     digit_bg_color = Some (Str ''#1a1a2e''),
     glow = False,
     progress_bar = True,
     progress_color = Str ''#00e5ff'',
     gradient_bg = False,
     gradient_colors = None,
     circle_progress = False,
     circle_color = Str ''#000'',
     monospace = True
   \<rparr>"

definition style_classic :: StyleConfig where
  "style_classic = \<lparr>
     name = ''classic'',
     description = ''Traditional white on black with serif-style digits'',
     width = 1920,
     height = 1080,
     bg_color = Str ''#000000'',
     text_color = Str ''#ffffff'',
     font_size = 300,
     font_name = None,
     separator = '':'',
     show_labels = False,
     label_color = Str ''#888'',
     border = True,
     border_color = Str ''#ffffff'',
     border_width = 4,
     rounded_bg = False,
     digit_bg_color = None,
     glow = False,
     progress_bar = False,
     progress_color = Str ''#000'',
     gradient_bg = False,
     gradient_colors = None,
     circle_progress = False,
     circle_color = Str ''#000'',
     monospace = True
   \<rparr>"

definition style_neon :: StyleConfig where
  "style_neon = \<lparr>
     name = ''neon'',
     description = ''Neon glow effect on dark purple background'',
     width = 1920,
     height = 1080,
     bg_color = Str ''#0d0221'',
     text_color = Str ''#ff2afc'',
     font_size = 220,
     font_name = None,
     separator = '' : '',
     show_labels = False,
     label_color = Str ''#555'',
     border = False,
     border_color = Str ''#000'',
     border_width = 0,
     rounded_bg = False,
     digit_bg_color = None,
     glow = True,
     progress_bar = False,
     progress_color = Str ''#000'',
     gradient_bg = False,
     gradient_colors = None,
     circle_progress = False,
     circle_color = Str ''#000'',
     monospace = True
   \<rparr>"

definition style_minimal :: StyleConfig where
  "style_minimal = \<lparr>
     name = ''minimal'',
     description = ''Minimal white background with thin gray text'',
     width = 1920,
     height = 1080,
     bg_color = Str ''#ffffff'',
     text_color = Str ''#333333'',
     font_size = 260,
     font_name = None,
     separator = '':'',
     show_labels = True,
     label_color = Str ''#aaaaaa'',
     border = False,
     border_color = Str ''#000'',
     border_width = 0,
     rounded_bg = False,
     digit_bg_color = None,
     glow = False,
     progress_bar = False,
     progress_color = Str ''#000'',
     gradient_bg = False,
     gradient_colors = None,
     circle_progress = False,
     circle_color = Str ''#000'',
     monospace = True
   \<rparr>"

definition style_retro :: StyleConfig where
  "style_retro = \<lparr>
     name = ''retro'',
     description = ''Retro LED display with amber digits on dark background'',
     width = 1920,
     height = 1080,
     bg_color = Str ''#1a1000'',
     text_color = Str ''#ff8c00'',
     font_size = 300,
     font_name = None,
     separator = '':'',
     show_labels = False,
     label_color = Str ''#555'',
     border = True,
     border_color = Str ''#332200'',
     border_width = 8,
     rounded_bg = True,
     digit_bg_color = Some (Str ''#0f0a00''),
     glow = True,
     progress_bar = False,
     progress_color = Str ''#000'',
     gradient_bg = False,
     gradient_colors = None,
     circle_progress = False,
     circle_color = Str ''#000'',
     monospace = True
   \<rparr>"

definition style_gradient :: StyleConfig where
  "style_gradient = \<lparr>
     name = ''gradient'',
     description = ''Vibrant gradient background with white text'',
     width = 1920,
     height = 1080,
     bg_color = Str ''#000000'',
     text_color = Str ''#ffffff'',
     font_size = 280,
     font_name = None,
     separator = '':'',
     show_labels = True,
     label_color = Str ''#dddddd'',
     border = False,
     border_color = Str ''#000'',
     border_width = 0,
     rounded_bg = False,
     digit_bg_color = None,
     glow = False,
     progress_bar = True,
     progress_color = Str ''#ffffff'',
     gradient_bg = True,
     gradient_colors = Some [Str ''#667eea'', Str ''#764ba2''],
     circle_progress = False,
     circle_color = Str ''#000'',
     monospace = True
   \<rparr>"

definition style_terminal :: StyleConfig where
  "style_terminal = \<lparr>
     name = ''terminal'',
     description = ''Hacker-style green on black terminal look'',
     width = 1920,
     height = 1080,
     bg_color = Str ''#0c0c0c'',
     text_color = Str ''#00ff41'',
     font_size = 260,
     font_name = None,
     separator = '':'',
     show_labels = True,
     label_color = Str ''#006b1a'',
     border = True,
     border_color = Str ''#00ff41'',
     border_width = 2,
     rounded_bg = False,
     digit_bg_color = None,
     glow = True,
     progress_bar = False,
     progress_color = Str ''#000'',
     gradient_bg = False,
     gradient_colors = None,
     circle_progress = False,
     circle_color = Str ''#000'',
     monospace = True
   \<rparr>"

definition style_cinematic :: StyleConfig where
  "style_cinematic = \<lparr>
     name = ''cinematic'',
     description = ''Cinematic widescreen with gold text on dark gradient'',
     width = 1920,
     height = 1080,
     bg_color = Str ''#000000'',
     text_color = Str ''#d4af37'',
     font_size = 220,
     font_name = None,
     separator = '' : '',
     show_labels = False,
     label_color = Str ''#555'',
     border = False,
     border_color = Str ''#000'',
     border_width = 0,
     rounded_bg = False,
     digit_bg_color = None,
     glow = True,
     progress_bar = False,
     progress_color = Str ''#000'',
     gradient_bg = True,
     gradient_colors = Some [Str ''#1a1a1a'', Str ''#000000''],
     circle_progress = False,
     circle_color = Str ''#000'',
     monospace = True
   \<rparr>"

definition style_sport :: StyleConfig where
  "style_sport = \<lparr>
     name = ''sport'',
     description = ''Sporty bold red countdown with progress bar'',
     width = 1920,
     height = 1080,
     bg_color = Str ''#111111'',
     text_color = Str ''#ff1744'',
     font_size = 300,
     font_name = None,
     separator = '':'',
     show_labels = True,
     label_color = Str ''#666666'',
     border = False,
     border_color = Str ''#000'',
     border_width = 0,
     rounded_bg = True,
     digit_bg_color = Some (Str ''#1c1c1c''),
     glow = False,
     progress_bar = True,
     progress_color = Str ''#ff1744'',
     gradient_bg = False,
     gradient_colors = None,
     circle_progress = False,
     circle_color = Str ''#000'',
     monospace = True
   \<rparr>"

definition style_elegant :: StyleConfig where
  "style_elegant = \<lparr>
     name = ''elegant'',
     description = ''Elegant cream background with dark brown text and circle progress'',
     width = 1920,
     height = 1080,
     bg_color = Str ''#f5f0e8'',
     text_color = Str ''#3e2723'',
     font_size = 180,
     font_name = None,
     separator = ''  :  '',
     show_labels = True,
     label_color = Str ''#8d6e63'',
     border = False,
     border_color = Str ''#000'',
     border_width = 0,
     rounded_bg = False,
     digit_bg_color = None,
     glow = False,
     progress_bar = False,
     progress_color = Str ''#000'',
     gradient_bg = False,
     gradient_colors = None,
     circle_progress = True,
     circle_color = Str ''#8d6e63'',
     monospace = True
   \<rparr>"

definition STYLES :: "(string \<times> StyleConfig) list" where
  "STYLES = dict_of
     [(''modern'', style_modern),
      (''classic'', style_classic),
      (''neon'', style_neon),
      (''minimal'', style_minimal),
      (''retro'', style_retro),
      (''gradient'', style_gradient),
      (''terminal'', style_terminal),
      (''cinematic'', style_cinematic),
      (''sport'', style_sport),
      (''elegant'', style_elegant)]"

subsection \<open>Style catalog: circle styles\<close>

record CircleTimerConfig =
  name :: string
  description :: string
  width :: int
  height :: int
  bg_color :: color
  text_color :: color
  font_size :: int
  wedge_color :: color
  wedge_alpha :: int
  ring_color :: color
  ring_width :: int
  tick_color :: color
  tick_major_len :: int
  tick_minor_len :: int
  show_ticks :: bool
  show_hour_numbers :: bool
  hour_number_color :: color
  center_dot :: bool
  center_dot_color :: color
  glow :: bool
  gradient_bg :: bool
  gradient_colors :: "color list option"

definition style_circle_modern :: CircleTimerConfig where
  "style_circle_modern = \<lparr>
     name = ''circle-modern'',
     description = ''Modern dark circle timer with cyan wedge'',
     width = 1080,
     height = 1080,
     bg_color = Str ''#0a0a0a'',
     text_color = Str ''#00e5ff'',
     font_size = 90,
     wedge_color = Str ''#00e5ff'',
     wedge_alpha = 180,
     ring_color = Str ''#00e5ff'',
     ring_width = 6,
     tick_color = Str ''#00e5ff'',
     tick_major_len = 25,
     tick_minor_len = 12,
     show_ticks = True,
     show_hour_numbers = False,
     hour_number_color = Str ''#555'',
     center_dot = True,
     center_dot_color = Str ''#00e5ff'',
     glow = False,
     gradient_bg = False,
     gradient_colors = None
   \<rparr>"

definition style_circle_classic :: CircleTimerConfig where
  "style_circle_classic = \<lparr>
     name = ''circle-classic'',
     description = ''Classic Time Timer style with red wedge on white'',
     width = 1080,
     height = 1080,
     bg_color = Str ''#ffffff'',
     text_color = Str ''#333333'',
     font_size = 80,
     wedge_color = Str ''#e53935'',
     wedge_alpha = 200,
     ring_color = Str ''#333333'',
     ring_width = 5,
     tick_color = Str ''#333333'',
     tick_major_len = 30,
     tick_minor_len = 15,
     show_ticks = True,
     show_hour_numbers = True,
     hour_number_color = Str ''#666666'',
     center_dot = True,
     center_dot_color = Str ''#333333'',
     glow = False,
     gradient_bg = False,
     gradient_colors = None
   \<rparr>"

definition style_circle_neon :: CircleTimerConfig where
  "style_circle_neon = \<lparr>
     name = ''circle-neon'',
     description = ''Neon glowing circle timer on dark purple'',
     width = 1080,
     height = 1080,
     bg_color = Str ''#0d0221'',
     text_color = Str ''#ff2afc'',
     font_size = 90,
     wedge_color = Str ''#ff2afc'',
     wedge_alpha = 150,
     ring_color = Str ''#ff2afc'',
     ring_width = 4,
     tick_color = Str ''#ff2afc'',
     tick_major_len = 20,
     tick_minor_len = 10,
     show_ticks = True,
     show_hour_numbers = False,
     hour_number_color = Str ''#555'',
     center_dot = False,
     center_dot_color = Str ''#000'',
     glow = True,
     gradient_bg = False,
     gradient_colors = None
   \<rparr>"

definition style_circle_minimal :: CircleTimerConfig where
  "style_circle_minimal = \<lparr>
     name = ''circle-minimal'',
     description = ''Minimal circle timer with thin ring on white'',
     width = 1080,
     height = 1080,
     bg_color = Str ''#ffffff'',
     text_color = Str ''#333333'',
     font_size = 80,
     wedge_color = Str ''#90caf9'',
     wedge_alpha = 140,
     ring_color = Str ''#cccccc'',
     ring_width = 2,
     tick_color = Str ''#cccccc'',
     tick_major_len = 15,
     tick_minor_len = 0,
     show_ticks = True,
     show_hour_numbers = False,
     hour_number_color = Str ''#aaa'',
     center_dot = False,
     center_dot_color = Str ''#000'',
     glow = False,
     gradient_bg = False,
     gradient_colors = None
   \<rparr>"

definition style_circle_retro :: CircleTimerConfig where
  "style_circle_retro = \<lparr>
     name = ''circle-retro'',
     description = ''Retro amber circle timer with LED look'',
     width = 1080,
     height = 1080,
     bg_color = Str ''#1a1000'',
     text_color = Str ''#ff8c00'',
     font_size = 90,
     wedge_color = Str ''#ff8c00'',
     wedge_alpha = 160,
     ring_color = Str ''#ff8c00'',
     ring_width = 5,
     tick_color = Str ''#ff8c00'',
     tick_major_len = 25,
     tick_minor_len = 12,
     show_ticks = True,
     show_hour_numbers = False,
     hour_number_color = Str ''#555'',
     center_dot = True,
     center_dot_color = Str ''#ff8c00'',
     glow = True,
     gradient_bg = False,
     gradient_colors = None
   \<rparr>"

definition style_circle_gradient :: CircleTimerConfig where
  "style_circle_gradient = \<lparr>
     name = ''circle-gradient'',
     description = ''Circle timer on vibrant purple gradient'',
     width = 1080,
     height = 1080,
     bg_color = Str ''#000000'',
     text_color = Str ''#ffffff'',
     font_size = 80,
     wedge_color = Str ''#ffffff'',
     wedge_alpha = 120,
     ring_color = Str ''#ffffff'',
     ring_width = 4,
     tick_color = Str ''#ffffffcc'',
     tick_major_len = 20,
     tick_minor_len = 10,
     show_ticks = True,
     show_hour_numbers = False,
     hour_number_color = Str ''#ddd'',
     center_dot = True,
     center_dot_color = Str ''#ffffff'',
     glow = False,
     gradient_bg = True,
     gradient_colors = Some [Str ''#667eea'', Str ''#764ba2'']
   \<rparr>"

definition style_circle_terminal :: CircleTimerConfig where
  "style_circle_terminal = \<lparr>
     name = ''circle-terminal'',
     description = ''Terminal green circle timer on black'',
     width = 1080,
     height = 1080,
     bg_color = Str ''#0c0c0c'',
     text_color = Str ''#00ff41'',
     font_size = 80,
     wedge_color = Str ''#00ff41'',
     wedge_alpha = 130,
     ring_color = Str ''#00ff41'',
     ring_width = 3,
     tick_color = Str ''#00ff41'',
     tick_major_len = 20,
     tick_minor_len = 10,
     show_ticks = True,
     show_hour_numbers = False,
     hour_number_color = Str ''#006b1a'',
     center_dot = False,
     center_dot_color = Str ''#000'',
     glow = True,
     gradient_bg = False,
     gradient_colors = None
   \<rparr>"

definition style_circle_cinematic :: CircleTimerConfig where
  "style_circle_cinematic = \<lparr>
     name = ''circle-cinematic'',
     description = ''Cinematic gold circle timer on dark gradient'',
     width = 1080,
     height = 1080,
     bg_color = Str ''#000000'',
     text_color = Str ''#d4af37'',
     font_size = 90,
     wedge_color = Str ''#d4af37'',
     wedge_alpha = 160,
     ring_color = Str ''#d4af37'',
     ring_width = 5,
     tick_color = Str ''#d4af37'',
     tick_major_len = 25,
     tick_minor_len = 12,
     show_ticks = True,
     show_hour_numbers = True,
     hour_number_color = Str ''#8a7a2a'',
     center_dot = True,
     center_dot_color = Str ''#d4af37'',
     glow = True,
     gradient_bg = True,
     gradient_colors = Some [Str ''#1a1a1a'', Str ''#000000'']
   \<rparr>"

definition style_circle_sport :: CircleTimerConfig where
  "style_circle_sport = \<lparr>
     name = ''circle-sport'',
     description = ''Sporty red circle timer with bold digits'',
     width = 1080,
     height = 1080,
     bg_color = Str ''#111111'',
     text_color = Str ''#ff1744'',
     font_size = 100,
     wedge_color = Str ''#ff1744'',
     wedge_alpha = 180,
     ring_color = Str ''#ff1744'',
     ring_width = 6,
     tick_color = Str ''#ff1744'',
     tick_major_len = 30,
     tick_minor_len = 15,
     show_ticks = True,
     show_hour_numbers = False,
     hour_number_color = Str ''#666'',
     center_dot = True,
     center_dot_color = Str ''#ff1744'',
     glow = False,
     gradient_bg = False,
     gradient_colors = None
   \<rparr>"

definition style_circle_elegant :: CircleTimerConfig where
  "style_circle_elegant = \<lparr>
     name = ''circle-elegant'',
     description = ''Elegant cream circle timer with brown wedge'',
     width = 1080,
     height = 1080,
     bg_color = Str ''#f5f0e8'',
     text_color = Str ''#3e2723'',
     font_size = 80,
     wedge_color = Str ''#8d6e63'',
     wedge_alpha = 150,
     ring_color = Str ''#3e2723'',
     ring_width = 3,
     tick_color = Str ''#8d6e63'',
     tick_major_len = 25,
     tick_minor_len = 12,
     show_ticks = True,
     show_hour_numbers = True,
     hour_number_color = Str ''#8d6e63'',
     center_dot = True,
     center_dot_color = Str ''#3e2723'',
     glow = False,
     gradient_bg = False,
     gradient_colors = None
   \<rparr>"

definition CIRCLE_STYLES :: "(string \<times> CircleTimerConfig) list" where
  "CIRCLE_STYLES = dict_of
     [(''circle-modern'', style_circle_modern),
      (''circle-classic'', style_circle_classic),
      (''circle-neon'', style_circle_neon),
      (''circle-minimal'', style_circle_minimal),
      (''circle-retro'', style_circle_retro),
      (''circle-gradient'', style_circle_gradient),
      (''circle-terminal'', style_circle_terminal),
      (''circle-cinematic'', style_circle_cinematic),
      (''circle-sport'', style_circle_sport),
      (''circle-elegant'', style_circle_elegant)]"

subsection \<open>Drawing\<close>

text \<open>
  The font loaders \<^verbatim>\<open>get_font_at_size\<close> and \<^verbatim>\<open>get_label_font_at_size\<close> probe font files
  and fall back to a built-in font; they catch every exception.  A font is represented by
  its loader and its size.
\<close>

datatype font = MonoFont int | LabelFont int

definition get_font :: "StyleConfig \<Rightarrow> font" where
  "get_font style = MonoFont (StyleConfig.font_size style)"

definition get_label_font :: "StyleConfig \<Rightarrow> font" where
  "get_label_font style = LabelFont (StyleConfig.font_size style div 6)"

text \<open>
  The measurement \<^verbatim>\<open>draw.textbbox((0, 0), text, font=font, anchor="lt")\<close> belongs to the
  imaging library: it is a parameter of the renderers.
\<close>

type_synonym bbox = "int \<times> int \<times> int \<times> int"

type_synonym metrics = "font \<Rightarrow> string \<Rightarrow> bbox"

text \<open>\<^verbatim>\<open>bbox[2] - bbox[0]\<close> and \<^verbatim>\<open>bbox[3] - bbox[1]\<close>.\<close>

definition bbox_w :: "bbox \<Rightarrow> int" where
  "bbox_w b = fst (snd (snd b)) - fst b"

definition bbox_h :: "bbox \<Rightarrow> int" where
  "bbox_h b = snd (snd (snd b)) - fst (snd b)"

text \<open>
  The calls of the drawing interface, with their arguments.  An image is the list of the
  calls that made it.  Where the program computes end points with \<^verbatim>\<open>math.cos\<close> and
  \<^verbatim>\<open>math.sin\<close> (tick marks, hour numbers) the call is recorded in polar form: centre,
  radii, angle in degrees.
  \<^item> \<open>Line x0 y0 x1 y1 fill width\<close>
  \<^item> \<open>RadialLine cx cy r_inner r_outer degrees fill width\<close>
  \<^item> \<open>Rectangle box fill outline width\<close>
  \<^item> \<open>RoundedRectangle box radius fill\<close>
  \<^item> \<open>Arc box start end fill width\<close>
  \<^item> \<open>Text x y text font fill anchor\<close>
  \<^item> \<open>RadialText cx cy r degrees text font fill anchor\<close>
  \<^item> \<open>Pieslice box start end fill\<close>
  \<^item> \<open>Ellipse box fill outline width\<close>
\<close>

datatype shape =
    Line int int int int "int list" int
  | RadialLine int int int int int "int list" int
  | Rectangle bbox "int list option" "int list option" int
  | RoundedRectangle bbox int "int list"
  | Arc bbox py_float py_float "int list" int
  | Text int int string font "int list" string
  | RadialText int int int int string font "int list" string
  | Pieslice bbox py_float py_float "int list"
  | Ellipse bbox "int list option" "int list option" int

text \<open>
  \<open>NewImage mode w h colour\<close> is \<^verbatim>\<open>Image.new\<close>; \<open>AlphaComposite w h colour shapes\<close> is
  \<^verbatim>\<open>Image.alpha_composite\<close> with a layer made by \<^verbatim>\<open>Image.new("RGBA", (w, h), colour)\<close> on
  which the shapes were drawn; \<open>Convert mode\<close> is \<^verbatim>\<open>img.convert\<close>.
\<close>

datatype paint =
    NewImage string int int "int list"
  | Draw shape
  | AlphaComposite int int "int list" "shape list"
  | Convert string

type_synonym image = "paint list"

text \<open>Steps that draw, run in order; the first exception ends the rendering.\<close>

fun seq_paint :: "(error + paint list) list \<Rightarrow> error + paint list" where
  "seq_paint [] = Inr []"
| "seq_paint (s # ss) = ebind s (\<lambda>ps. ebind (seq_paint ss) (\<lambda>qs. Inr (ps @ qs)))"

text \<open>One channel of a scan line: \<^verbatim>\<open>int(top[k] + (bottom[k] - top[k]) * ratio)\<close>.\<close>

definition gradient_channel :: "int list \<Rightarrow> int list \<Rightarrow> py_float \<Rightarrow> int \<Rightarrow> error + int" where
  "gradient_channel top_rgb bottom_rgb ratio k =
     ebind (py_index top_rgb k) (\<lambda>t.
     ebind (py_index bottom_rgb k) (\<lambda>b.
     ebind (float_of_int (b - t)) (\<lambda>d.
     ebind (float_of_int t) (\<lambda>ft.
     py_int (fadd ft (fmul d ratio))))))"

definition gradient_row :: "int \<Rightarrow> int \<Rightarrow> int list \<Rightarrow> int list \<Rightarrow> int \<Rightarrow> error + paint" where
  "gradient_row w h top_rgb bottom_rgb y =
     ebind (py_truediv y h) (\<lambda>ratio.
     ebind (gradient_channel top_rgb bottom_rgb ratio 0) (\<lambda>r.
     ebind (gradient_channel top_rgb bottom_rgb ratio 1) (\<lambda>g.
     ebind (gradient_channel top_rgb bottom_rgb ratio 2) (\<lambda>b.
     Inr (Draw (Line 0 y w y [r, g, b] 0))))))"

definition draw_gradient :: "int \<Rightarrow> int \<Rightarrow> color \<Rightarrow> color \<Rightarrow> error + paint list" where
  "draw_gradient w h top_color bottom_color =
     ebind (hex_to_rgb top_color) (\<lambda>top_rgb.
     ebind (hex_to_rgb bottom_color) (\<lambda>bottom_rgb.
     traverse (gradient_row w h top_rgb bottom_rgb) (range_upto h)))"

definition glow_layer ::
  "string \<Rightarrow> int \<Rightarrow> int \<Rightarrow> font \<Rightarrow> int list \<Rightarrow> int \<Rightarrow> error + paint list" where
  "glow_layer text x y fnt rgb i =
     ebind (ebind (py_truediv 40 i) py_int) (\<lambda>alpha.
     ebind (py_index rgb 0) (\<lambda>r.
     ebind (py_index rgb 1) (\<lambda>g.
     ebind (py_index rgb 2) (\<lambda>b.
     Inr [Draw (Text (x + dx) (y + dy) text fnt [r, g, b, alpha] ''mm'').
            dx \<leftarrow> [- i * 2..i * 2], dy \<leftarrow> [- i * 2..i * 2],
            dx * dx + dy * dy \<le> (i * 2) ^ 2]))))"

definition draw_glow ::
  "string \<Rightarrow> int \<Rightarrow> int \<Rightarrow> font \<Rightarrow> color \<Rightarrow> int \<Rightarrow> error + paint list" where
  "draw_glow text x y fnt c layers =
     ebind (hex_to_rgb c) (\<lambda>rgb.
     ebind (traverse (glow_layer text x y fnt rgb) (range_down layers 0)) (\<lambda>ls.
     Inr (concat ls)))"

definition draw_rounded_rect :: "bbox \<Rightarrow> int list \<Rightarrow> int \<Rightarrow> paint list" where
  "draw_rounded_rect box fill radius = [Draw (RoundedRectangle box radius fill)]"

definition draw_circle_progress ::
  "int \<Rightarrow> int \<Rightarrow> int \<Rightarrow> py_float \<Rightarrow> color \<Rightarrow> int \<Rightarrow> error + paint list" where
  "draw_circle_progress cx cy radius progress c wd =
     ebind (hex_to_rgb c) (\<lambda>rgb.
       let box = (cx - radius, cy - radius, cx + radius, cy + radius);
           end_angle = fadd (Fin (- 90)) (fmul (Fin 360) progress)
       in Inr ([Draw (Arc box (Fin 0) (Fin 360) (rgb @ [60]) wd)] @
               (if fgt0 progress then [Draw (Arc box (Fin (- 90)) end_angle rgb (wd * 2))] else [])))"

subsection \<open>Steps shared by the two renderers\<close>

text \<open>\<^verbatim>\<open>Image.new("RGBA", (w, h), hex_to_rgb(style.bg_color) + (255,))\<close>.\<close>

definition new_image_step :: "int \<Rightarrow> int \<Rightarrow> color \<Rightarrow> error + paint list" where
  "new_image_step w h bg = ebind (hex_to_rgb bg) (\<lambda>c. Inr [NewImage ''RGBA'' w h (c @ [255])])"

text \<open>The block \<^verbatim>\<open>if style.gradient_bg and style.gradient_colors:\<close>.\<close>

definition gradient_bg_block :: "int \<Rightarrow> int \<Rightarrow> bool \<Rightarrow> color list option \<Rightarrow> error + paint list" where
  "gradient_bg_block w h enabled colors =
     (if enabled \<and> truthy_tuple colors
      then ebind (py_index (the colors) 0) (\<lambda>c0.
           ebind (py_index (the colors) 1) (\<lambda>c1.
           draw_gradient w h c0 c1))
      else Inr [])"

text \<open>The block \<^verbatim>\<open>if style.glow:\<close> with its number of layers.\<close>

definition glow_block ::
  "bool \<Rightarrow> string \<Rightarrow> int \<Rightarrow> int \<Rightarrow> font \<Rightarrow> color \<Rightarrow> int \<Rightarrow> error + paint list" where
  "glow_block enabled time_text cx cy fnt c layers =
     (if enabled then draw_glow time_text cx cy fnt c layers else Inr [])"

text \<open>\<^verbatim>\<open>draw.text((cx, cy), time_text, font=font, fill=hex_to_rgb(style.text_color), anchor="mm")\<close>.\<close>

definition main_text_step :: "string \<Rightarrow> int \<Rightarrow> int \<Rightarrow> font \<Rightarrow> color \<Rightarrow> error + paint list" where
  "main_text_step time_text cx cy fnt c =
     ebind (hex_to_rgb c) (\<lambda>rgb. Inr [Draw (Text cx cy time_text fnt rgb ''mm'')])"

subsection \<open>Frame renderer, digital styles\<close>

text \<open>The progress of \<^verbatim>\<open>render_frame\<close>: \<^verbatim>\<open>1.0 - (total_seconds / total_duration) if total_duration > 0 else 1.0\<close>.\<close>

definition progress_ratio :: "int \<Rightarrow> int \<Rightarrow> error + py_float" where
  "progress_ratio total_seconds total_duration =
     (if total_duration > 0
      then ebind (py_truediv total_seconds total_duration) (\<lambda>q. Inr (fsub (Fin 1) q))
      else Inr (Fin 1))"

text \<open>The block \<^verbatim>\<open>if style.border:\<close>.\<close>

definition border_block :: "StyleConfig \<Rightarrow> int \<Rightarrow> int \<Rightarrow> error + paint list" where
  "border_block style w h =
     (if StyleConfig.border style
      then (let bw = StyleConfig.border_width style
            in ebind (hex_to_rgb (StyleConfig.border_color style)) (\<lambda>bc.
                 Inr [Draw (Rectangle (bw div 2, bw div 2, w - bw div 2, h - bw div 2)
                              None (Some bc) bw)]))
      else Inr [])"

text \<open>The block \<^verbatim>\<open>if style.rounded_bg and style.digit_bg_color:\<close>.\<close>

definition rounded_bg_block :: "StyleConfig \<Rightarrow> int \<Rightarrow> int \<Rightarrow> int \<Rightarrow> int \<Rightarrow> error + paint list" where
  "rounded_bg_block style cx cy text_w text_h =
     (if StyleConfig.rounded_bg style \<and> truthy_color (StyleConfig.digit_bg_color style)
      then (let pad_x = 60; pad_y = 40;
                rect_bbox = (cx - text_w div 2 - pad_x, cy - text_h div 2 - pad_y,
                             cx + text_w div 2 + pad_x, cy + text_h div 2 + pad_y)
            in ebind (hex_to_rgb (the (StyleConfig.digit_bg_color style))) (\<lambda>c.
                 Inr (draw_rounded_rect rect_bbox c 30)))
      else Inr [])"

text \<open>The block \<^verbatim>\<open>if style.circle_progress:\<close>.\<close>

definition circle_progress_block ::
  "StyleConfig \<Rightarrow> int \<Rightarrow> int \<Rightarrow> int \<Rightarrow> int \<Rightarrow> py_float \<Rightarrow> error + paint list" where
  "circle_progress_block style w h cx cy progress =
     (if StyleConfig.circle_progress style
      then (let radius = min w h div 2 - 60
            in draw_circle_progress cx cy radius progress (StyleConfig.circle_color style) 8)
      else Inr [])"

text \<open>The block \<^verbatim>\<open>if style.show_labels:\<close>.\<close>

definition labels_block ::
  "metrics \<Rightarrow> StyleConfig \<Rightarrow> int \<Rightarrow> int \<Rightarrow> int \<Rightarrow> int \<Rightarrow> string \<Rightarrow> string \<Rightarrow> error + paint list" where
  "labels_block tb style cx cy text_w text_h hh mm =
     (if StyleConfig.show_labels style then
        (let label_font = get_label_font style;
             label_y = cy + text_h div 2 + 30;
             hh_w = bbox_w (tb (get_font style) hh);
             sep_w = bbox_w (tb (get_font style) (StyleConfig.separator style));
             mm_w = bbox_w (tb (get_font style) mm);
             start_x = cx - text_w div 2;
             hh_cx = start_x + hh_w div 2;
             mm_cx = start_x + hh_w + sep_w + mm_w div 2;
             ss_cx = start_x + hh_w + sep_w + mm_w + sep_w + hh_w div 2
         in ebind (hex_to_rgb (StyleConfig.label_color style)) (\<lambda>lc.
              Inr [Draw (Text hh_cx label_y ''HOURS'' label_font lc ''mt''),
                   Draw (Text mm_cx label_y ''MINUTES'' label_font lc ''mt''),
                   Draw (Text ss_cx label_y ''SECONDS'' label_font lc ''mt'')]))
      else Inr [])"

text \<open>The block \<^verbatim>\<open>if style.progress_bar:\<close>.\<close>

definition progress_bar_block :: "StyleConfig \<Rightarrow> int \<Rightarrow> int \<Rightarrow> py_float \<Rightarrow> error + paint list" where
  "progress_bar_block style w h progress =
     (if StyleConfig.progress_bar style then
        (let bar_h = 6; bar_y = h - 40; bar_margin = 80; bar_w = w - bar_margin * 2
         in ebind (hex_to_rgb (StyleConfig.progress_color style)) (\<lambda>pc.
            ebind (float_of_int bar_w) (\<lambda>fw.
            ebind (py_int (fmul fw progress)) (\<lambda>fill_w.
              Inr ([Draw (Rectangle (bar_margin, bar_y, bar_margin + bar_w, bar_y + bar_h)
                            (Some (pc @ [40])) None 1)] @
                   (if fill_w > 0
                    then [Draw (Rectangle (bar_margin, bar_y, bar_margin + fill_w, bar_y + bar_h)
                                  (Some pc) None 1)]
                    else []))))))
      else Inr [])"

definition render_frame :: "metrics \<Rightarrow> StyleConfig \<Rightarrow> int \<Rightarrow> int \<Rightarrow> error + image" where
  "render_frame tb style total_seconds total_duration =
     (let w = StyleConfig.width style; h = StyleConfig.height style;
          hh = fst (format_time total_seconds);
          mm = fst (snd (format_time total_seconds));
          ss = snd (snd (format_time total_seconds))
      in ebind (progress_ratio total_seconds total_duration) (\<lambda>progress.
         let time_text = hh @ StyleConfig.separator style @ mm @ StyleConfig.separator style @ ss;
             fnt = get_font style;
             text_w = bbox_w (tb fnt time_text);
             text_h = bbox_h (tb fnt time_text);
             cx = w div 2;
             cy = h div 2
         in seq_paint
           [new_image_step w h (StyleConfig.bg_color style),
            gradient_bg_block w h (StyleConfig.gradient_bg style) (StyleConfig.gradient_colors style),
            border_block style w h,
            rounded_bg_block style cx cy text_w text_h,
            circle_progress_block style w h cx cy progress,
            glow_block (StyleConfig.glow style) time_text cx cy fnt (StyleConfig.text_color style) 4,
            main_text_step time_text cx cy fnt (StyleConfig.text_color style),
            labels_block tb style cx cy text_w text_h hh mm,
            progress_bar_block style w h progress,
            Inr [Convert ''RGB'']]))"

subsection \<open>Frame renderer, circle styles\<close>

text \<open>The ratio of \<^verbatim>\<open>render_circle_frame\<close>: \<^verbatim>\<open>total_seconds / total_duration if total_duration > 0 else 0.0\<close>.\<close>

definition remaining_ratio :: "int \<Rightarrow> int \<Rightarrow> error + py_float" where
  "remaining_ratio total_seconds total_duration =
     (if total_duration > 0 then py_truediv total_seconds total_duration else Inr (Fin 0))"

text \<open>The block \<^verbatim>\<open>if remaining_ratio > 0:\<close>: the pie wedge on its own layer.\<close>

definition wedge_block ::
  "int \<Rightarrow> int \<Rightarrow> int \<Rightarrow> int \<Rightarrow> int \<Rightarrow> int list \<Rightarrow> int \<Rightarrow> py_float \<Rightarrow> paint list" where
  "wedge_block w h cx cy radius wedge_rgb alpha ratio =
     (if fgt0 ratio then
        (let sweep_angle = fmul ratio (Fin 360);
             start_angle = Fin (- 90);
             end_angle = fadd start_angle sweep_angle;
             wedge_bbox = (cx - radius, cy - radius, cx + radius, cy + radius)
         in [AlphaComposite w h [0, 0, 0, 0]
               [Pieslice wedge_bbox start_angle end_angle (wedge_rgb @ [alpha])]])
      else [])"

text \<open>The outer ring.\<close>

definition ring_step :: "CircleTimerConfig \<Rightarrow> int \<Rightarrow> int \<Rightarrow> int \<Rightarrow> int list \<Rightarrow> paint list" where
  "ring_step style cx cy radius ring_rgb =
     [Draw (Ellipse (cx - radius, cy - radius, cx + radius, cy + radius)
              None (Some ring_rgb) (ring_width style))]"

text \<open>The body of the loop \<^verbatim>\<open>for i in range(60):\<close> and the block \<^verbatim>\<open>if style.show_ticks:\<close>.\<close>

definition tick_mark :: "CircleTimerConfig \<Rightarrow> int \<Rightarrow> int \<Rightarrow> int \<Rightarrow> int list \<Rightarrow> int \<Rightarrow> paint list" where
  "tick_mark style cx cy radius tick_rgb i =
     (let is_major = (i mod 5 = 0);
          tick_len = (if is_major then tick_major_len style else tick_minor_len style)
      in if tick_len \<le> 0 then []
         else [Draw (RadialLine cx cy (radius - ring_width style - tick_len)
                       (radius - ring_width style) (i * 6 - 90) tick_rgb
                       (if is_major then 3 else 1))])"

definition ticks_block :: "CircleTimerConfig \<Rightarrow> int \<Rightarrow> int \<Rightarrow> int \<Rightarrow> int list \<Rightarrow> paint list" where
  "ticks_block style cx cy radius tick_rgb =
     (if show_ticks style
      then concat (map (tick_mark style cx cy radius tick_rgb) (range_upto 60))
      else [])"

text \<open>The body of the loop \<^verbatim>\<open>for i in range(12):\<close> and the block \<^verbatim>\<open>if style.show_hour_numbers:\<close>.\<close>

definition hour_number :: "CircleTimerConfig \<Rightarrow> int \<Rightarrow> int \<Rightarrow> int \<Rightarrow> int list \<Rightarrow> int \<Rightarrow> paint" where
  "hour_number style cx cy radius num_rgb i =
     (let hour_val = i * 2;
          num_r = radius - ring_width style - max (tick_major_len style) (tick_minor_len style) - 30
      in Draw (RadialText cx cy num_r (i * 30 - 90) (py_str hour_val)
                 (LabelFont (CircleTimerConfig.font_size style div 3)) num_rgb ''mm''))"

definition hour_numbers_block :: "CircleTimerConfig \<Rightarrow> int \<Rightarrow> int \<Rightarrow> int \<Rightarrow> error + paint list" where
  "hour_numbers_block style cx cy radius =
     (if show_hour_numbers style
      then ebind (hex_to_rgb (hour_number_color style)) (\<lambda>num_rgb.
             Inr (map (hour_number style cx cy radius num_rgb) (range_upto 12)))
      else Inr [])"

text \<open>The block \<^verbatim>\<open>if style.center_dot:\<close>.\<close>

definition center_dot_block :: "CircleTimerConfig \<Rightarrow> int \<Rightarrow> int \<Rightarrow> error + paint list" where
  "center_dot_block style cx cy =
     (if center_dot style
      then (let dot_r = 8
            in ebind (hex_to_rgb (center_dot_color style)) (\<lambda>dot_rgb.
                 Inr [Draw (Ellipse (cx - dot_r, cy - dot_r, cx + dot_r, cy + dot_r)
                              (Some dot_rgb) None 1)]))
      else Inr [])"

definition render_circle_frame :: "CircleTimerConfig \<Rightarrow> int \<Rightarrow> int \<Rightarrow> error + image" where
  "render_circle_frame style total_seconds total_duration =
     (let w = CircleTimerConfig.width style; h = CircleTimerConfig.height style;
          hh = fst (format_time total_seconds);
          mm = fst (snd (format_time total_seconds));
          ss = snd (snd (format_time total_seconds))
      in ebind (remaining_ratio total_seconds total_duration) (\<lambda>ratio.
         let time_text = hh @ '':'' @ mm @ '':'' @ ss;
             cx = w div 2;
             cy = h div 2;
             margin = 80;
             radius = min w h div 2 - margin;
             fnt = MonoFont (CircleTimerConfig.font_size style)
         in ebind (seq_paint
              [new_image_step w h (CircleTimerConfig.bg_color style),
               gradient_bg_block w h (CircleTimerConfig.gradient_bg style)
                 (CircleTimerConfig.gradient_colors style)]) (\<lambda>background.
            ebind (hex_to_rgb (wedge_color style)) (\<lambda>wedge_rgb.
            ebind (hex_to_rgb (ring_color style)) (\<lambda>ring_rgb.
            ebind (hex_to_rgb (tick_color style)) (\<lambda>tick_rgb.
            ebind (seq_paint
              [Inr (wedge_block w h cx cy radius wedge_rgb (wedge_alpha style) ratio),
               Inr (ring_step style cx cy radius ring_rgb),
               Inr (ticks_block style cx cy radius tick_rgb),
               hour_numbers_block style cx cy radius,
               center_dot_block style cx cy,
               glow_block (CircleTimerConfig.glow style) time_text cx cy fnt
                 (CircleTimerConfig.text_color style) 3,
               main_text_step time_text cx cy fnt (CircleTimerConfig.text_color style),
               Inr [Convert ''RGB'']]) (\<lambda>foreground.
            Inr (background @ foreground))))))))"

subsection \<open>Main generation logic\<close>

text \<open>A value of the merged catalogue is a style of either class (\<^verbatim>\<open>isinstance\<close> tells them apart).\<close>

datatype style = Digital StyleConfig | Circle CircleTimerConfig

definition ALL_STYLES :: "(string \<times> style) list" where
  "ALL_STYLES =
     dict_merge (map (\<lambda>(k, v). (k, Digital v)) STYLES) (map (\<lambda>(k, v). (k, Circle v)) CIRCLE_STYLES)"

definition style_width :: "style \<Rightarrow> int" where
  "style_width s = (case s of Digital c \<Rightarrow> StyleConfig.width c | Circle c \<Rightarrow> CircleTimerConfig.width c)"

definition style_height :: "style \<Rightarrow> int" where
  "style_height s = (case s of Digital c \<Rightarrow> StyleConfig.height c | Circle c \<Rightarrow> CircleTimerConfig.height c)"

definition style_description :: "style \<Rightarrow> string" where
  "style_description s =
     (case s of Digital c \<Rightarrow> StyleConfig.description c | Circle c \<Rightarrow> CircleTimerConfig.description c)"

text \<open>The dispatch \<^verbatim>\<open>if isinstance(style, CircleTimerConfig): ... else: ...\<close>.\<close>

definition render :: "metrics \<Rightarrow> style \<Rightarrow> int \<Rightarrow> int \<Rightarrow> error + image" where
  "render tb s total_seconds total_duration =
     (case s of
        Circle c \<Rightarrow> render_circle_frame c total_seconds total_duration
      | Digital c \<Rightarrow> render_frame tb c total_seconds total_duration)"

text \<open>
  What a run does to the outside: lines printed, directories made, calls of the frame
  renderer (with the second and the total passed) and files saved with their image.
\<close>

datatype event =
    Print string
  | MakeDirs string
  | Render style int int
  | Save string image

text \<open>
  The variables of the loop of \<^verbatim>\<open>generate_frames\<close>, the events so far, and the exception
  raised, if any; once an exception is raised nothing more happens.
\<close>

record loop_state =
  frame_num :: int
  img :: "image option"
  trace :: "event list"
  raised :: "error option"

text \<open>The progress report, printed when \<^verbatim>\<open>frame_num % (fps * 60) == 0\<close>.\<close>

definition progress_report :: "int \<Rightarrow> int \<Rightarrow> int \<Rightarrow> loop_state \<Rightarrow> loop_state" where
  "progress_report fps total_frames second st =
     (case py_mod (frame_num st) (fps * 60) of
        Inl e \<Rightarrow> st\<lparr>raised := Some e\<rparr>
      | Inr r \<Rightarrow>
          if r = 0 then
            (case ebind (py_floordiv (total_frames - frame_num st) (fps * 60)) (\<lambda>remaining_minutes.
                  ebind (py_floordiv (frame_num st * 100) total_frames) (\<lambda>percent.
                  Inr (''  Progress: '' @ py_str (frame_num st) @ ''/'' @ py_str total_frames
                       @ '' frames ('' @ py_str percent @ ''%) - Timer at ''
                       @ fst (format_time second) @ '':'' @ fst (snd (format_time second)) @ '':''
                       @ snd (snd (format_time second))
                       @ '' - ~'' @ py_str remaining_minutes @ '' min of frames remaining'')))
             of Inl e \<Rightarrow> st\<lparr>raised := Some e\<rparr>
              | Inr line \<Rightarrow> st\<lparr>trace := trace st @ [Print line]\<rparr>)
          else st)"

text \<open>One turn of the inner loop \<^verbatim>\<open>for sub_frame in range(fps):\<close>.\<close>

definition sub_frame_body ::
  "metrics \<Rightarrow> style \<Rightarrow> string \<Rightarrow> int \<Rightarrow> int \<Rightarrow> int \<Rightarrow> int \<Rightarrow> loop_state \<Rightarrow> int \<Rightarrow> loop_state" where
  "sub_frame_body tb s frame_dir fps total_frames start_seconds second st sub_frame =
     (if raised st \<noteq> None then st
      else
        (let st1 =
               (if sub_frame = 0 then
                  (case render tb s second start_seconds of
                     Inl e \<Rightarrow> st\<lparr>trace := trace st @ [Render s second start_seconds], raised := Some e\<rparr>
                   | Inr im \<Rightarrow> st\<lparr>img := Some im, trace := trace st @ [Render s second start_seconds]\<rparr>)
                else st)
         in if raised st1 \<noteq> None then st1
            else
              (case img st1 of
                 None \<Rightarrow> st1\<lparr>raised := Some UnboundLocalError\<rparr>
               | Some im \<Rightarrow>
                   (let frame_path = path_join frame_dir (''frame_'' @ format_0d 8 (frame_num st1) @ ''.png'');
                        st2 = st1\<lparr>frame_num := frame_num st1 + 1,
                                  trace := trace st1 @ [Save frame_path im]\<rparr>
                    in progress_report fps total_frames second st2))))"

text \<open>The outer loop \<^verbatim>\<open>for second in range(start_seconds, start_seconds - duration - 1, -1):\<close>.\<close>

fun seconds_loop ::
  "metrics \<Rightarrow> style \<Rightarrow> string \<Rightarrow> int \<Rightarrow> int \<Rightarrow> int \<Rightarrow> loop_state \<Rightarrow> int list \<Rightarrow> loop_state" where
  "seconds_loop tb s frame_dir fps total_frames start_seconds st [] = st"
| "seconds_loop tb s frame_dir fps total_frames start_seconds st (second # rest) =
     (if raised st \<noteq> None then st
      else if second < 0 then st
      else seconds_loop tb s frame_dir fps total_frames start_seconds
             (foldl (sub_frame_body tb s frame_dir fps total_frames start_seconds second) st
                (range_upto fps))
             rest)"

text \<open>A run ends with its events and the exception that ended it, if any.\<close>

type_synonym outcome = "event list \<times> error option"

definition generate_frames :: "metrics \<Rightarrow> string \<Rightarrow> string \<Rightarrow> int \<Rightarrow> int \<Rightarrow> int \<Rightarrow> outcome" where
  "generate_frames tb style_name output_dir fps duration start_seconds =
     (case dict_get ALL_STYLES style_name of
        None \<Rightarrow>
          ([Print (''Unknown style: '' @ style_name),
            Print (''Available: '' @ join '', '' (dict_keys ALL_STYLES))],
           Some (SystemExit 1))
      | Some s \<Rightarrow>
          (let frame_dir = path_join output_dir style_name;
               total_frames = duration * fps;
               st0 = \<lparr>frame_num = 0, img = None,
                      trace =
                        [MakeDirs frame_dir,
                         Print (''Generating '' @ style_name @ '' countdown: '' @ py_str total_frames
                                @ '' frames at '' @ py_str fps @ '' fps''),
                         Print (''  Resolution: '' @ py_str (style_width s) @ ''x''
                                @ py_str (style_height s)),
                         Print (''  Output: '' @ frame_dir @ ''/''),
                         Print (''  Duration: '' @ py_str duration @ ''s (''
                                @ py_str (duration div 3600) @ ''h ''
                                @ py_str ((duration mod 3600) div 60) @ ''m ''
                                @ py_str (duration mod 60) @ ''s)''),
                         Print ''''],
                      raised = None\<rparr>;
               st1 = seconds_loop tb s frame_dir fps total_frames start_seconds st0
                       (range_down start_seconds (start_seconds - duration - 1))
           in if raised st1 \<noteq> None then (trace st1, raised st1)
              else
                (trace st1 @
                 [Print ([CHR 0x0A] @ ''Done! '' @ py_str (frame_num st1) @ '' frames saved to ''
                         @ frame_dir @ ''/''),
                  Print ([CHR 0x0A] @ ''To create video with ffmpeg:''),
                  Print (''  ffmpeg -framerate '' @ py_str fps @ '' -i '' @ frame_dir
                         @ ''/frame_%08d.png '' @ [CHR 0x5C]),
                  Print (''    -c:v libx264 -pix_fmt yuv420p -crf 18 countdown_'' @ style_name
                         @ ''.mp4'')],
                 None)))"

definition preview_style :: "metrics \<Rightarrow> string \<Rightarrow> string \<Rightarrow> outcome" where
  "preview_style tb style_name output_dir =
     (case dict_get ALL_STYLES style_name of
        None \<Rightarrow> ([Print (''Unknown style: '' @ style_name)], None)
      | Some s \<Rightarrow>
          (let preview_seconds = 12 * 3600 + 34 * 60 + 56
           in case render tb s preview_seconds 86400 of
                Inl e \<Rightarrow> ([MakeDirs output_dir, Render s preview_seconds 86400], Some e)
              | Inr im \<Rightarrow>
                  (let path = path_join output_dir (''preview_'' @ style_name @ ''.png'')
                   in ([MakeDirs output_dir, Render s preview_seconds 86400, Save path im,
                        Print (''Preview saved: '' @ path)],
                       None))))"

text \<open>The branch \<^verbatim>\<open>if args.list_styles:\<close> of \<^verbatim>\<open>main\<close>.\<close>

definition list_styles :: "event list" where
  "list_styles =
     [Print ''Available countdown styles:'', Print (replicate 60 (CHR ''-''))] @
     map (\<lambda>(nm, s). Print (''  '' @ ljust 12 nm @ '' - '' @ style_description s)) ALL_STYLES @
     [Print ([CHR 0x0A] @ ''Total: '' @ py_str (int (length ALL_STYLES)) @ '' styles'')]"

subsection \<open>Reading a run\<close>

text \<open>The files saved, in order, the seconds rendered, in order, and the lines printed.\<close>

fun saved :: "event list \<Rightarrow> (string \<times> image) list" where
  "saved [] = []"
| "saved (Save p im # es) = (p, im) # saved es"
| "saved (_ # es) = saved es"

fun rendered :: "event list \<Rightarrow> int list" where
  "rendered [] = []"
| "rendered (Render s second td # es) = second # rendered es"
| "rendered (_ # es) = rendered es"

fun printed :: "event list \<Rightarrow> string list" where
  "printed [] = []"
| "printed (Print l # es) = l # printed es"
| "printed (_ # es) = printed es"

text \<open>The seconds the outer loop of \<^verbatim>\<open>generate_frames\<close> reaches before its \<^verbatim>\<open>break\<close>.\<close>

definition countdown_seconds :: "int \<Rightarrow> int \<Rightarrow> int list" where
  "countdown_seconds duration start_seconds =
     takeWhile (\<lambda>second. 0 \<le> second) (range_down start_seconds (start_seconds - duration - 1))"

text \<open>
  A font of fixed pitch, for the closed examples: every character is \<open>3/5\<close> of the font
  size wide, and a line is as high as the font size.
\<close>

fun font_px :: "font \<Rightarrow> int" where
  "font_px (MonoFont n) = n"
| "font_px (LabelFont n) = n"

definition fixed_pitch :: metrics where
  "fixed_pitch f s = (0, 0, int (length s) * (font_px f * 3 div 5), font_px f)"

section \<open>Properties\<close>

subsection \<open>Decimal digits\<close>

lemma lt10_cases:
  "(k::nat) < 10 \<Longrightarrow>
     k = 0 \<or> k = 1 \<or> k = 2 \<or> k = 3 \<or> k = 4 \<or> k = 5 \<or> k = 6 \<or> k = 7 \<or> k = 8 \<or> k = 9"
  by arith

lemma digit_char_is_digit: "is_digit (digit_char d)"
proof -
  have "d mod 10 < 10" by simp
  from lt10_cases [OF this] show ?thesis
    by (auto simp: digit_char_def is_digit_def)
qed

lemma digit_val_digit_char: "d < 10 \<Longrightarrow> digit_val (digit_char d) = d"
proof -
  assume "d < 10"
  from lt10_cases [OF this] show ?thesis
    by (auto simp: digit_char_def digit_val_def)
qed

lemma read_dec_snoc: "read_dec (cs @ [c]) = 10 * read_dec cs + digit_val c"
  by (simp add: read_dec_def)

lemma read_dec_dec_nat: "read_dec (dec_nat n) = n"
proof (induction n rule: dec_nat.induct)
  case (1 n)
  show ?case
  proof (cases "n < 10")
    case True
    then show ?thesis
      by (simp add: dec_nat.simps [of n] read_dec_def digit_val_digit_char)
  next
    case False
    with 1 show ?thesis
      by (simp add: dec_nat.simps [of n] read_dec_snoc digit_val_digit_char)
  qed
qed

lemma dec_nat_digits: "list_all is_digit (dec_nat n)"
proof (induction n rule: dec_nat.induct)
  case (1 n)
  then show ?case
    by (cases "n < 10") (simp_all add: dec_nat.simps [of n] digit_char_is_digit)
qed

lemma dec_nat_length_1: "n < 10 \<Longrightarrow> length (dec_nat n) = 1"
  by (simp add: dec_nat.simps [of n])

lemma dec_nat_length_2: "10 \<le> n \<Longrightarrow> n < 100 \<Longrightarrow> length (dec_nat n) = 2"
  by (simp add: dec_nat.simps [of n] dec_nat_length_1)

lemma dec_nat_length_ge: "10 \<le> n \<Longrightarrow> 2 \<le> length (dec_nat n)"
proof -
  assume "10 \<le> n"
  then have "dec_nat n = dec_nat (n div 10) @ [digit_char (n mod 10)]"
    by (simp add: dec_nat.simps [of n])
  moreover have "dec_nat (n div 10) \<noteq> []"
    by (simp add: dec_nat.simps [of "n div 10"])
  ultimately show ?thesis
    by (cases "dec_nat (n div 10)") simp_all
qed

lemma dec_nat_length_3: "100 \<le> n \<Longrightarrow> 3 \<le> length (dec_nat n)"
proof -
  assume "100 \<le> n"
  then have "dec_nat n = dec_nat (n div 10) @ [digit_char (n mod 10)]" and "10 \<le> n div 10"
    by (simp_all add: dec_nat.simps [of n])
  then show ?thesis
    using dec_nat_length_ge [of "n div 10"] by simp
qed

lemma dec_nat_hd: "0 < n \<Longrightarrow> hd (dec_nat n) \<noteq> CHR ''0''"
proof (induction n rule: dec_nat.induct)
  case (1 n)
  show ?case
  proof (cases "n < 10")
    case True
    from lt10_cases [OF True] 1(2) show ?thesis
      by (auto simp: dec_nat.simps [of n] digit_char_def)
  next
    case False
    then have "0 < n div 10" by simp
    with 1(1) False have "hd (dec_nat (n div 10)) \<noteq> CHR ''0''" by simp
    moreover have "dec_nat (n div 10) \<noteq> []"
      by (simp add: dec_nat.simps [of "n div 10"])
    ultimately show ?thesis
      using False by (simp add: dec_nat.simps [of n])
  qed
qed

subsection \<open>Time formatter\<close>

lemma read_dec_zeros: "read_dec (replicate k (CHR ''0'') @ cs) = read_dec cs"
proof -
  have "foldl (\<lambda>acc c. 10 * acc + digit_val c) 0 (replicate k (CHR ''0'')) = 0"
    by (induction k) (simp_all add: digit_val_def)
  then show ?thesis
    by (simp add: read_dec_def)
qed

lemma format_0d_nonneg:
  "0 \<le> n \<Longrightarrow> format_0d w n = replicate (w - length (dec_nat (nat n))) (CHR ''0'') @ dec_nat (nat n)"
  by (simp add: format_0d_def Let_def)

lemma zeros_digits: "list_all is_digit (replicate k (CHR ''0''))"
  by (induction k) (simp_all add: is_digit_def)

lemma format_0d_digits: "0 \<le> n \<Longrightarrow> list_all is_digit (format_0d w n)"
  by (simp add: format_0d_nonneg dec_nat_digits zeros_digits)

lemma format_0d_value: "0 \<le> n \<Longrightarrow> int (read_dec (format_0d w n)) = n"
  by (simp add: format_0d_nonneg read_dec_zeros read_dec_dec_nat)

lemma format_0d_2_small: "0 \<le> n \<Longrightarrow> n < 100 \<Longrightarrow> length (format_0d 2 n) = 2"
proof -
  assume n: "0 \<le> n" "n < 100"
  show ?thesis
  proof (cases "nat n < 10")
    case True
    then show ?thesis using n by (simp add: format_0d_nonneg dec_nat_length_1)
  next
    case False
    then have "10 \<le> nat n" "nat n < 100" using n by simp_all
    then show ?thesis using n by (simp add: format_0d_nonneg dec_nat_length_2)
  qed
qed

lemma format_0d_2_large: "100 \<le> n \<Longrightarrow> format_0d 2 n = dec_nat (nat n)"
proof -
  assume n: "100 \<le> n"
  then have "3 \<le> length (dec_nat (nat n))"
    by (intro dec_nat_length_3) simp
  then show ?thesis using n by (simp add: format_0d_nonneg)
qed

lemma format_0d_2_min: "0 \<le> n \<Longrightarrow> 2 \<le> length (format_0d 2 n)"
  by (simp add: format_0d_nonneg)

lemma format_time_examples:
  "format_time 0 = (''00'', ''00'', ''00'')"
  "format_time 86400 = (''24'', ''00'', ''00'')"
  "format_time 45296 = (''12'', ''34'', ''56'')"
  by code_simp+

lemma hms_bounds:
  fixes t :: int
  assumes "0 \<le> t"
  shows "0 \<le> t div 3600" and "0 \<le> (t mod 3600) div 60" and "(t mod 3600) div 60 < 100"
    and "0 \<le> t mod 60" and "t mod 60 < 100"
proof -
  show "0 \<le> t div 3600"
    using assms by (rule pos_imp_zdiv_nonneg_iff [THEN iffD2, rotated]) simp
  have a: "0 \<le> t mod 3600" by (rule pos_mod_sign) simp
  have b: "t mod 3600 < 3600" by (rule pos_mod_bound) simp
  show "0 \<le> (t mod 3600) div 60"
    using a by (rule pos_imp_zdiv_nonneg_iff [THEN iffD2, rotated]) simp
  have "(t mod 3600) div 60 \<le> 3599 div 60"
    by (rule zdiv_mono1) (use b in simp_all)
  then show "(t mod 3600) div 60 < 100" by simp
  show "0 \<le> t mod 60" by (rule pos_mod_sign) simp
  have "t mod 60 < 60" by (rule pos_mod_bound) simp
  then show "t mod 60 < 100" by simp
qed

text \<open>
  Claim C3.  For a non-negative number of seconds, \<open>format_time\<close> returns three strings
  of decimal digits that denote the hours \<open>t div 3600\<close>, the minutes
  \<open>(t mod 3600) div 60\<close> and the seconds \<open>t mod 60\<close>.  The minutes and the seconds have
  exactly two characters; the hours have two characters below 100 and, from 100 hours on,
  all their digits with no leading zero (the width is a minimum, nothing is cut).  The
  three values of the specification are included.
\<close>

theorem format_time_spec:
  assumes "0 \<le> t" and "format_time t = (hh, mm, ss)"
  shows "list_all is_digit hh \<and> list_all is_digit mm \<and> list_all is_digit ss
    \<and> int (read_dec hh) = t div 3600
    \<and> int (read_dec mm) = (t mod 3600) div 60
    \<and> int (read_dec ss) = t mod 60
    \<and> 2 \<le> length hh \<and> length mm = 2 \<and> length ss = 2
    \<and> (t div 3600 < 100 \<longrightarrow> length hh = 2)
    \<and> (100 \<le> t div 3600 \<longrightarrow> 3 \<le> length hh \<and> hd hh \<noteq> CHR ''0'')
    \<and> format_time 0 = (''00'', ''00'', ''00'')
    \<and> format_time 86400 = (''24'', ''00'', ''00'')
    \<and> format_time 45296 = (''12'', ''34'', ''56'')"
proof -
  define h m s where "h = t div 3600" and "m = (t mod 3600) div 60" and "s = t mod 60"
  from assms(2) have hh: "hh = format_0d 2 h" and mm: "mm = format_0d 2 m"
    and ss: "ss = format_0d 2 s"
    by (simp_all add: format_time_def Let_def h_def m_def s_def)
  from hms_bounds [OF assms(1)]
  have h: "0 \<le> h" and m: "0 \<le> m" "m < 100" and s: "0 \<le> s" "s < 100"
    by (simp_all add: h_def m_def s_def)
  have big: "3 \<le> length hh \<and> hd hh \<noteq> CHR ''0''" if "100 \<le> h"
    using that dec_nat_length_3 [of "nat h"] dec_nat_hd [of "nat h"]
    by (simp add: hh format_0d_2_large)
  have "list_all is_digit hh \<and> list_all is_digit mm \<and> list_all is_digit ss
    \<and> int (read_dec hh) = h \<and> int (read_dec mm) = m \<and> int (read_dec ss) = s
    \<and> 2 \<le> length hh \<and> length mm = 2 \<and> length ss = 2
    \<and> (h < 100 \<longrightarrow> length hh = 2)
    \<and> (100 \<le> h \<longrightarrow> 3 \<le> length hh \<and> hd hh \<noteq> CHR ''0'')"
    using h m s big
    by (simp add: hh mm ss format_0d_digits format_0d_value format_0d_2_small format_0d_2_min)
  then show ?thesis
    unfolding h_def m_def s_def using format_time_examples by blast
qed

lemma read_dec_examples:
  "read_dec ''12'' = 12" "read_dec ''34'' = 34" "read_dec ''56'' = 56"
  by code_simp+

theorem format_time_spec_witness:
  "(0::int) \<le> 45296 \<and> format_time 45296 = (''12'', ''34'', ''56'')
    \<and> int (read_dec ''12'') = 45296 div 3600
    \<and> int (read_dec ''34'') = (45296 mod 3600) div 60
    \<and> int (read_dec ''56'') = 45296 mod 60"
proof -
  have a: "(0::int) \<le> 45296" by simp
  from format_time_spec [OF a format_time_examples(3)] a format_time_examples(3)
  show ?thesis by blast
qed

subsection \<open>Binary64 rounding\<close>

lemma pow2_powi: "pow2 e = 2 powi e"
  by (simp add: pow2_def power_int_def power_inverse inverse_eq_divide power_one_over)

lemma pow2_pos: "0 < pow2 e"
  by (simp add: pow2_powi)

lemma pow2_add: "pow2 (a + b) = pow2 a * pow2 b"
  by (simp add: pow2_powi power_int_add)

lemma pow2_mono: "a \<le> b \<Longrightarrow> pow2 a \<le> pow2 b"
  by (simp add: pow2_powi power_int_increasing)

lemma pow2_nat: "pow2 (int n) = 2 ^ n"
  by (simp add: pow2_def)

lemma pow2_neg: "pow2 (- e) = 1 / pow2 e"
  by (simp add: pow2_powi power_int_minus inverse_eq_divide)

lemma bitlen_nonneg: "0 \<le> bitlen n"
  by (induction n rule: bitlen.induct) (simp add: bitlen.simps)

lemma bitlen_bounds:
  "0 < n \<Longrightarrow> 2 ^ nat (bitlen n - 1) \<le> n \<and> n < 2 ^ nat (bitlen n)"
proof (induction n rule: bitlen.induct)
  case (1 n)
  show ?case
  proof (cases "n = 1")
    case True
    then show ?thesis by (simp add: bitlen.simps)
  next
    case False
    with 1(2) have h: "0 < n div 2" by simp
    with 1(1) 1(2) have ih: "2 ^ nat (bitlen (n div 2) - 1) \<le> n div 2"
      "n div 2 < 2 ^ nat (bitlen (n div 2))" by simp_all
    have b: "bitlen n = 1 + bitlen (n div 2)" using 1(2) by (simp add: bitlen.simps [of n])
    have pos: "1 \<le> bitlen (n div 2)"
      using h bitlen_nonneg [of "n div 2 div 2"] by (simp add: bitlen.simps [of "n div 2"])
    have e1: "nat (bitlen n - 1) = Suc (nat (bitlen (n div 2) - 1))"
      using b pos by simp
    have e2: "nat (bitlen n) = Suc (nat (bitlen (n div 2)))"
      using b pos by simp
    have "2 * 2 ^ nat (bitlen (n div 2) - 1) \<le> 2 * (n div 2)" using ih(1) by simp
    also have "\<dots> \<le> n" by simp
    finally have lo: "2 ^ nat (bitlen n - 1) \<le> n" by (simp add: e1)
    have "n div 2 + 1 \<le> 2 ^ nat (bitlen (n div 2))" using ih(2) by simp
    then have "2 * (n div 2) + 2 \<le> 2 * 2 ^ nat (bitlen (n div 2))" by simp
    moreover have "n < 2 * (n div 2) + 2" by presburger
    ultimately have hi: "n < 2 ^ nat (bitlen n)" by (simp add: e2)
    from lo hi show ?thesis by simp
  qed
qed


lemma binade_bounds:
  assumes "0 < x"
  shows "pow2 (binade x) \<le> x \<and> x < pow2 (binade x + 1)"
proof (cases "1 \<le> x")
  case True
  define n where "n = \<lfloor>x\<rfloor>"
  have n: "0 < n" using True by (simp add: n_def)
  have b: "binade x = bitlen n - 1" using True by (simp add: binade_def n_def)
  have bl: "1 \<le> bitlen n"
    using n bitlen_nonneg [of "n div 2"] by (simp add: bitlen.simps [of n])
  from bitlen_bounds [OF n] have lo: "2 ^ nat (bitlen n - 1) \<le> n" and hi: "n < 2 ^ nat (bitlen n)"
    by simp_all
  have "pow2 (binade x) = of_int (2 ^ nat (bitlen n - 1))"
    using bl by (simp add: b pow2_def)
  also have "\<dots> \<le> of_int n" using lo by (simp only: of_int_le_iff)
  also have "\<dots> \<le> x" by (simp add: n_def)
  finally have 1: "pow2 (binade x) \<le> x" .
  have "n + 1 \<le> 2 ^ nat (bitlen n)" using hi by simp
  then have "(of_int (n + 1) :: rat) \<le> of_int (2 ^ nat (bitlen n))" by (simp only: of_int_le_iff)
  moreover have "x < of_int (n + 1)" using floor_correct [of x] by (simp add: n_def)
  moreover have "pow2 (binade x + 1) = of_int (2 ^ nat (bitlen n))"
    using bl by (simp add: b pow2_def)
  ultimately have 2: "x < pow2 (binade x + 1)" by simp
  from 1 2 show ?thesis by simp
next
  case False
  define y where "y = 1 / x"
  define m where "m = \<lceil>y\<rceil> - 1"
  have y: "1 < y" using False assms by (simp add: y_def)
  have m: "0 < m" using y by (simp add: m_def)
  have x: "x = 1 / y" by (simp add: y_def)
  have b: "binade x = - bitlen m" using False by (simp add: binade_def m_def y_def)
  have bl: "1 \<le> bitlen m"
    using m bitlen_nonneg [of "m div 2"] by (simp add: bitlen.simps [of m])
  from bitlen_bounds [OF m] have lo: "2 ^ nat (bitlen m - 1) \<le> m" and hi: "m < 2 ^ nat (bitlen m)"
    by simp_all
  have "y \<le> of_int (m + 1)" using ceiling_correct [of y] by (simp add: m_def)
  also have "(of_int (m + 1) :: rat) \<le> of_int (2 ^ nat (bitlen m))"
    using hi by (simp only: of_int_le_iff)
  also have "(of_int (2 ^ nat (bitlen m)) :: rat) = pow2 (bitlen m)"
    using bl by (simp add: pow2_def)
  finally have "y \<le> pow2 (bitlen m)" .
  then have "1 / pow2 (bitlen m) \<le> 1 / y"
    using y by (intro frac_le) simp_all
  moreover have "pow2 (binade x) = 1 / pow2 (bitlen m)"
    by (simp only: b pow2_neg)
  ultimately have 1: "pow2 (binade x) \<le> x"
    by (simp only: x)
  have "pow2 (bitlen m - 1) = of_int (2 ^ nat (bitlen m - 1))"
    using bl by (simp add: pow2_def)
  also have "\<dots> \<le> of_int m"
    using lo by (simp only: of_int_le_iff)
  also have "\<dots> < y" using ceiling_correct [of y] by (simp add: m_def)
  finally have "pow2 (bitlen m - 1) < y" .
  then have "1 / y < 1 / pow2 (bitlen m - 1)"
    using pow2_pos [of "bitlen m - 1"] by (intro frac_less2) simp_all
  moreover have "pow2 (binade x + 1) = 1 / pow2 (bitlen m - 1)"
    using pow2_neg [of "bitlen m - 1"] by (simp add: b)
  ultimately have 2: "x < pow2 (binade x + 1)"
    by (simp only: x)
  from 1 2 show ?thesis by simp
qed

lemma rhe_of_int: "round_half_even (of_int n) = n"
  by (simp add: round_half_even_def Let_def)

lemma rhe_bounds: "of_int (round_half_even x) - 1 / 2 \<le> x \<and> x \<le> of_int (round_half_even x) + 1 / 2"
proof -
  define f where "f = \<lfloor>x\<rfloor>"
  define d where "d = x - of_int f"
  have d: "0 \<le> d" "d < 1" using floor_correct [of x] by (simp_all add: d_def f_def)
  have x: "x = of_int f + d" by (simp add: d_def)
  have r: "round_half_even x =
      (if d < 1 / 2 then f else if 1 / 2 < d then f + 1 else if even f then f else f + 1)"
    by (simp add: round_half_even_def Let_def f_def d_def)
  show ?thesis
    unfolding r using d by (auto simp: d_def)
qed

lemma rhe_mono:
  assumes "x \<le> y"
  shows "round_half_even x \<le> round_half_even y"
proof -
  define f where "f = \<lfloor>x\<rfloor>"
  define g where "g = \<lfloor>y\<rfloor>"
  have fg: "f \<le> g" using assms by (simp add: f_def g_def floor_mono)
  have rx: "round_half_even x =
      (if x - of_int f < 1 / 2 then f else if 1 / 2 < x - of_int f then f + 1
       else if even f then f else f + 1)"
    by (simp add: round_half_even_def Let_def f_def)
  have ry: "round_half_even y =
      (if y - of_int g < 1 / 2 then g else if 1 / 2 < y - of_int g then g + 1
       else if even g then g else g + 1)"
    by (simp add: round_half_even_def Let_def g_def)
  have xf: "f \<le> round_half_even x" "round_half_even x \<le> f + 1" by (simp_all add: rx)
  have yg: "g \<le> round_half_even y" "round_half_even y \<le> g + 1" by (simp_all add: ry)
  show ?thesis
  proof (cases "f = g")
    case True
    with assms have "x - of_int f \<le> y - of_int g" by simp
    then show ?thesis unfolding rx ry using True by auto
  next
    case False
    with fg have "f + 1 \<le> g" by simp
    with xf yg show ?thesis by linarith
  qed
qed

lemma rhe_minus: "round_half_even (- x) = - round_half_even x"
proof (cases "x = of_int \<lfloor>x\<rfloor>")
  case True
  then obtain n where "x = of_int n" ..
  then have "round_half_even (- x) = round_half_even (of_int (- n))" by simp
  also have "\<dots> = - n" by (rule rhe_of_int)
  finally show ?thesis using \<open>x = of_int n\<close> by (simp add: rhe_of_int)
next
  case False
  define f where "f = \<lfloor>x\<rfloor>"
  define d where "d = x - of_int f"
  have "of_int f \<le> x" by (simp add: f_def)
  with False have "of_int f < x" unfolding f_def by (metis order_le_less)
  then have d: "0 < d" "d < 1" using floor_correct [of x] by (simp_all add: d_def f_def)
  have fm: "\<lfloor>- x\<rfloor> = - f - 1"
    using d by (intro floor_unique) (simp_all add: d_def)
  have dm: "- x - of_int (- f - 1) = 1 - d" by (simp add: d_def)
  have r: "round_half_even x =
      (if d < 1 / 2 then f else if 1 / 2 < d then f + 1 else if even f then f else f + 1)"
    by (simp add: round_half_even_def Let_def f_def d_def)
  have rm: "round_half_even (- x) =
      (if 1 - d < 1 / 2 then - f - 1 else if 1 / 2 < 1 - d then - f
       else if even (- f - 1) then - f - 1 else - f)"
    unfolding round_half_even_def Let_def fm dm by simp
  show ?thesis
    unfolding r rm using d by auto
qed

lemma pow2_diff: "pow2 a / pow2 b = pow2 (a - b)"
proof -
  have "pow2 a = pow2 (a - b) * pow2 b"
    using pow2_add [of "a - b" b] by simp
  then show ?thesis using pow2_pos [of b] by simp
qed

lemma pow2_less_cancel: "pow2 a < pow2 b \<Longrightarrow> a < b"
  using pow2_mono [of b a] by (cases "a < b") simp_all

lemma pow2_of_int: "0 \<le> k \<Longrightarrow> pow2 k = of_int (2 ^ nat k)"
  by (simp add: pow2_def)

lemma binade_mono:
  assumes "0 < x" and "x \<le> y"
  shows "binade x \<le> binade y"
proof -
  from assms have "0 < y" by simp
  from binade_bounds [OF assms(1)] binade_bounds [OF this] assms(2)
  have "pow2 (binade x) < pow2 (binade y + 1)" by simp
  from pow2_less_cancel [OF this] show ?thesis by simp
qed

lemma ulp_exp_minus: "ulp_exp (- x) = ulp_exp x"
  by (simp add: ulp_exp_def)

lemma round64_minus: "round64 (- x) = - round64 x"
  by (simp add: round64_def ulp_exp_minus rhe_minus)

lemma round64_zero: "round64 0 = 0"
  by (simp add: round64_def)

lemma round64_nonneg:
  assumes "0 \<le> x"
  shows "0 \<le> round64 x"
proof (cases "x = 0")
  case True
  then show ?thesis by (simp add: round64_def)
next
  case False
  have "0 \<le> x / pow2 (ulp_exp x)" using assms pow2_pos [of "ulp_exp x"] by simp
  from rhe_mono [OF this] have "0 \<le> round_half_even (x / pow2 (ulp_exp x))"
    using rhe_of_int [of 0] by simp
  then show ?thesis
    using False pow2_pos [of "ulp_exp x"] by (simp add: round64_def)
qed

lemma ulp_exp_upper:
  assumes "0 < x"
  shows "x / pow2 (ulp_exp x) < pow2 53"
proof -
  have "binade x + 1 \<le> ulp_exp x + 53" using assms by (simp add: ulp_exp_def)
  from pow2_mono [OF this] binade_bounds [OF assms]
  have "x < pow2 (ulp_exp x + 53)" by simp
  also have "\<dots> = pow2 53 * pow2 (ulp_exp x)"
    using pow2_add [of 53 "ulp_exp x"] by (simp add: add.commute)
  finally show ?thesis using pow2_pos [of "ulp_exp x"] by (simp add: pos_divide_less_eq)
qed

lemma round64_upper:
  assumes "0 < x"
  shows "round64 x \<le> pow2 (ulp_exp x + 53)"
proof -
  let ?u = "pow2 (ulp_exp x)"
  have "x / ?u \<le> of_int (2 ^ 53)"
    using ulp_exp_upper [OF assms] pow2_of_int [of 53] by simp
  from rhe_mono [OF this] have "round_half_even (x / ?u) \<le> 2 ^ 53"
    by (simp only: rhe_of_int)
  then have "(of_int (round_half_even (x / ?u)) :: rat) \<le> of_int (2 ^ 53)"
    by (simp only: of_int_le_iff)
  then have "of_int (round_half_even (x / ?u)) \<le> pow2 53"
    using pow2_of_int [of 53] by simp
  then have "of_int (round_half_even (x / ?u)) * ?u \<le> pow2 53 * ?u"
    using pow2_pos [of "ulp_exp x"] by (simp only: mult_le_cancel_right_pos)
  moreover have "pow2 53 * ?u = pow2 (ulp_exp x + 53)"
    using pow2_add [of 53 "ulp_exp x"] by (simp add: add.commute)
  ultimately show ?thesis using assms by (simp add: round64_def)
qed

lemma round64_lower:
  assumes "0 < x" and "- 1022 \<le> binade x"
  shows "pow2 (ulp_exp x + 52) \<le> round64 x"
proof -
  let ?u = "pow2 (ulp_exp x)"
  have e: "ulp_exp x + 52 = binade x" using assms by (simp add: ulp_exp_def)
  have "pow2 52 * ?u = pow2 (ulp_exp x + 52)"
    using pow2_add [of 52 "ulp_exp x"] by (simp add: add.commute)
  also have "\<dots> \<le> x" using binade_bounds [OF assms(1)] by (simp add: e)
  finally have "pow2 52 \<le> x / ?u"
    using pow2_pos [of "ulp_exp x"] by (simp add: pos_le_divide_eq)
  then have "of_int (2 ^ 52) \<le> x / ?u" using pow2_of_int [of 52] by simp
  from rhe_mono [OF this] have "2 ^ 52 \<le> round_half_even (x / ?u)"
    by (simp only: rhe_of_int)
  then have "(of_int (2 ^ 52) :: rat) \<le> of_int (round_half_even (x / ?u))"
    by (simp only: of_int_le_iff)
  then have "pow2 52 \<le> of_int (round_half_even (x / ?u))"
    using pow2_of_int [of 52] by simp
  then have "pow2 52 * ?u \<le> of_int (round_half_even (x / ?u)) * ?u"
    using pow2_pos [of "ulp_exp x"] by (simp only: mult_le_cancel_right_pos)
  moreover have "pow2 52 * ?u = pow2 (ulp_exp x + 52)"
    using pow2_add [of 52 "ulp_exp x"] by (simp add: add.commute)
  ultimately show ?thesis using assms by (simp add: round64_def)
qed

lemma round64_mono_pos:
  assumes "0 < x" and "x \<le> y"
  shows "round64 x \<le> round64 y"
proof -
  from assms have y: "0 < y" by simp
  have le: "ulp_exp x \<le> ulp_exp y"
    using binade_mono [OF assms] assms y by (simp add: ulp_exp_def)
  show ?thesis
  proof (cases "ulp_exp x = ulp_exp y")
    case True
    let ?u = "pow2 (ulp_exp y)"
    have "x / ?u \<le> y / ?u" using assms(2) pow2_pos [of "ulp_exp y"] by (simp add: divide_right_mono)
    from rhe_mono [OF this]
    have "(of_int (round_half_even (x / ?u)) :: rat) \<le> of_int (round_half_even (y / ?u))"
      by (simp only: of_int_le_iff)
    then have "of_int (round_half_even (x / ?u)) * ?u \<le> of_int (round_half_even (y / ?u)) * ?u"
      using pow2_pos [of "ulp_exp y"] by (simp only: mult_le_cancel_right_pos)
    then show ?thesis using assms(1) y True by (simp add: round64_def)
  next
    case False
    with le have lt: "ulp_exp x + 53 \<le> ulp_exp y + 52" by simp
    then have "- 1022 \<le> binade y" using y by (simp add: ulp_exp_def)
    from round64_lower [OF y this] round64_upper [OF assms(1)] pow2_mono [OF lt]
    show ?thesis by simp
  qed
qed

lemma round64_mono:
  assumes "x \<le> y"
  shows "round64 x \<le> round64 y"
proof -
  consider "0 < x" | "x \<le> 0" "0 \<le> y" | "y < 0" by linarith
  then show ?thesis
  proof cases
    case 1
    then show ?thesis using assms by (rule round64_mono_pos)
  next
    case 2
    from 2(1) have "0 \<le> round64 (- x)" by (intro round64_nonneg) simp
    then have "round64 x \<le> 0" by (simp add: round64_minus)
    with round64_nonneg [OF 2(2)] show ?thesis by simp
  next
    case 3
    then have "0 < - y" "- y \<le> - x" using assms by simp_all
    from round64_mono_pos [OF this] show ?thesis by (simp add: round64_minus)
  qed
qed

lemma round64_error: "\<bar>round64 x - x\<bar> \<le> pow2 (ulp_exp x) / 2"
proof (cases "x = 0")
  case True
  then show ?thesis using pow2_pos [of "ulp_exp x"] by (simp add: round64_def)
next
  case False
  let ?u = "pow2 (ulp_exp x)"
  define r where "r = round_half_even (x / ?u)"
  have u: "0 < ?u" by (rule pow2_pos)
  from rhe_bounds [of "x / ?u"] have "\<bar>of_int r - x / ?u\<bar> \<le> 1 / 2"
    unfolding r_def by linarith
  then have "\<bar>of_int r - x / ?u\<bar> * ?u \<le> 1 / 2 * ?u"
    using u by (simp only: mult_le_cancel_right_pos)
  moreover have "\<bar>of_int r - x / ?u\<bar> * ?u = \<bar>of_int r * ?u - x\<bar>"
  proof -
    have "\<bar>of_int r - x / ?u\<bar> * ?u = \<bar>(of_int r - x / ?u) * ?u\<bar>"
      using u by (simp add: abs_mult)
    also have "(of_int r - x / ?u) * ?u = of_int r * ?u - x"
      using u by (simp add: field_simps)
    finally show ?thesis .
  qed
  ultimately show ?thesis using False by (simp add: round64_def r_def)
qed

lemma round64_exact:
  assumes "x = of_int m * pow2 (ulp_exp x)"
  shows "round64 x = x"
proof (cases "x = 0")
  case True
  then show ?thesis by (simp add: round64_def)
next
  case False
  have "x / pow2 (ulp_exp x) = of_int m"
    using assms pow2_pos [of "ulp_exp x"] by (simp add: field_simps)
  then show ?thesis using False assms by (simp add: round64_def rhe_of_int)
qed

lemma round64_consts:
  "round64 1 = 1" "round64 360 = 360" "round64 (- 90) = - 90" "round64 40 = 40"
  by code_simp+

subsection \<open>Floats that stay finite\<close>

lemma pow2_1024_gt: "1 < pow2 1024"
  using pow2_mono [of 1 1024] by (simp add: pow2_def)

lemma fl_Fin:
  assumes "- pow2 1024 < round64 x" and "round64 x < pow2 1024"
  shows "fl x = Fin (round64 x)"
  using assms by (simp add: fl_def Let_def)

lemma fl_not_NaN: "fl x \<noteq> NaN"
  by (simp add: fl_def Let_def)

lemma round64_between:
  assumes "a \<le> x" and "x \<le> b" and "round64 a = a" and "round64 b = b"
  shows "a \<le> round64 x \<and> round64 x \<le> b"
  using round64_mono [OF assms(1)] round64_mono [OF assms(2)] assms(3,4) by simp

lemma round64_unit:
  assumes "0 \<le> x" and "x \<le> 1"
  shows "0 \<le> round64 x \<and> round64 x \<le> 1"
  using round64_between [OF assms] by (simp add: round64_zero round64_consts)

lemma fl_unit:
  assumes "0 \<le> x" and "x \<le> 1"
  shows "fl x = Fin (round64 x)"
  using round64_unit [OF assms] pow2_1024_gt by (intro fl_Fin) simp_all

lemma ulp_exp_unit:
  assumes "0 < x" and "x < 1"
  shows "ulp_exp x \<le> - 53"
proof -
  from binade_bounds [OF assms(1)] assms(2) have "pow2 (binade x) < pow2 0"
    by (simp add: pow2_def)
  from pow2_less_cancel [OF this] show ?thesis using assms(1) by (simp add: ulp_exp_def)
qed

lemma round64_error_unit:
  assumes "0 \<le> x" and "x \<le> 1"
  shows "\<bar>round64 x - x\<bar> \<le> 1 / 2 ^ 54"
proof -
  consider "x = 0" | "x = 1" | "0 < x" "x < 1" using assms by linarith
  then show ?thesis
  proof cases
    case 1
    then show ?thesis by (simp add: round64_zero)
  next
    case 2
    then show ?thesis by (simp add: round64_consts)
  next
    case 3
    from pow2_mono [OF ulp_exp_unit [OF 3]] have "pow2 (ulp_exp x) \<le> 1 / 2 ^ 53"
      by (simp add: pow2_def)
    then have "pow2 (ulp_exp x) / 2 \<le> 1 / 2 ^ 54" by simp
    with round64_error [of x] show ?thesis by linarith
  qed
qed

subsection \<open>The progress ratio and the remaining ratio\<close>

lemma py_truediv_unit:
  assumes "0 < t" and "0 \<le> r" and "r \<le> t"
  shows "py_truediv r t = Inr (Fin (round64 (of_int r / of_int t)))"
    and "0 \<le> round64 (of_int r / of_int t)" and "round64 (of_int r / of_int t) \<le> 1"
proof -
  have q: "0 \<le> (of_int r / of_int t :: rat)" "(of_int r / of_int t :: rat) \<le> 1"
    using assms by simp_all
  from round64_unit [OF q] show "0 \<le> round64 (of_int r / of_int t)"
    and "round64 (of_int r / of_int t) \<le> 1" by simp_all
  show "py_truediv r t = Inr (Fin (round64 (of_int r / of_int t)))"
    using assms(1) by (simp add: py_truediv_def fl_unit [OF q])
qed

lemma progress_ratio_unit:
  assumes "0 < t" and "0 \<le> r" and "r \<le> t"
  shows "progress_ratio r t = Inr (Fin (round64 (1 - round64 (of_int r / of_int t))))"
    and "0 \<le> round64 (1 - round64 (of_int r / of_int t))"
    and "round64 (1 - round64 (of_int r / of_int t)) \<le> 1"
proof -
  let ?q = "round64 (of_int r / of_int t)"
  from py_truediv_unit [OF assms] have d: "py_truediv r t = Inr (Fin ?q)"
    and q: "0 \<le> 1 - ?q" "1 - ?q \<le> 1" by simp_all
  from round64_unit [OF q] show "0 \<le> round64 (1 - ?q)" and "round64 (1 - ?q) \<le> 1"
    by simp_all
  have "fsub (Fin 1) (Fin ?q) = fl (1 - ?q)" by (simp add: fsub_def)
  then show "progress_ratio r t = Inr (Fin (round64 (1 - ?q)))"
    using assms(1) by (simp add: progress_ratio_def d ebind_def fl_unit [OF q])
qed

text \<open>
  Claim C4.  With a positive total and the remaining seconds between \<open>0\<close> and the total,
  the progress of \<open>render_frame\<close> is \<open>1.0 - remaining / total\<close> in binary64 arithmetic (the
  quotient rounded, then the difference rounded), which is within \<open>2 ^ -53\<close> of the exact
  \<open>1 - remaining / total\<close>; it is \<open>0.0\<close> when nothing has elapsed, \<open>1.0\<close> when nothing
  remains, and it does not decrease when the remaining seconds decrease.
\<close>

theorem progress_ratio_spec:
  assumes "0 < t" and "0 \<le> r'" and "r' \<le> r" and "r \<le> t"
  shows "progress_ratio r t = Inr (Fin (round64 (1 - round64 (of_int r / of_int t))))
    \<and> \<bar>round64 (1 - round64 (of_int r / of_int t)) - (1 - of_int r / of_int t)\<bar> \<le> 1 / 2 ^ 53
    \<and> progress_ratio t t = Inr (Fin 0)
    \<and> progress_ratio 0 t = Inr (Fin 1)
    \<and> progress_ratio r' t = Inr (Fin (round64 (1 - round64 (of_int r' / of_int t))))
    \<and> round64 (1 - round64 (of_int r / of_int t)) \<le> round64 (1 - round64 (of_int r' / of_int t))"
proof -
  let ?x = "of_int r / of_int t :: rat" and ?x' = "of_int r' / of_int t :: rat"
  have r: "0 \<le> r" using assms by simp
  have r': "r' \<le> t" using assms by simp
  have x: "0 \<le> ?x" "?x \<le> 1" using assms r by simp_all
  have 1: "progress_ratio r t = Inr (Fin (round64 (1 - round64 ?x)))"
    by (rule progress_ratio_unit(1) [OF assms(1) r assms(4)])
  have 5: "progress_ratio r' t = Inr (Fin (round64 (1 - round64 ?x')))"
    by (rule progress_ratio_unit(1) [OF assms(1) assms(2) r'])
  have q: "0 \<le> 1 - round64 ?x" "1 - round64 ?x \<le> 1"
    using round64_unit [OF x] by simp_all
  have "\<bar>round64 (1 - round64 ?x) - (1 - ?x)\<bar>
      \<le> \<bar>round64 (1 - round64 ?x) - (1 - round64 ?x)\<bar> + \<bar>round64 ?x - ?x\<bar>"
    by linarith
  also have "\<dots> \<le> 1 / 2 ^ 54 + 1 / 2 ^ 54"
    using round64_error_unit [OF q] round64_error_unit [OF x] by linarith
  also have "\<dots> = (1 / 2 ^ 53 :: rat)" by simp
  finally have 2: "\<bar>round64 (1 - round64 ?x) - (1 - ?x)\<bar> \<le> 1 / 2 ^ 53" .
  have 3: "progress_ratio t t = Inr (Fin 0)"
    using progress_ratio_unit(1) [of t t] assms(1) by (simp add: round64_consts round64_zero)
  have 4: "progress_ratio 0 t = Inr (Fin 1)"
    using progress_ratio_unit(1) [of t 0] assms(1) by (simp add: round64_consts round64_zero)
  have "?x' \<le> ?x" using assms by (simp add: divide_right_mono)
  from round64_mono [OF this] have "1 - round64 ?x \<le> 1 - round64 ?x'" by simp
  from round64_mono [OF this] have 6: "round64 (1 - round64 ?x) \<le> round64 (1 - round64 ?x')" .
  from 1 2 3 4 5 6 show ?thesis by blast
qed

theorem progress_ratio_spec_witness:
  "(0::int) < 4 \<and> (0::int) \<le> 1 \<and> (1::int) \<le> 3 \<and> (3::int) \<le> 4
    \<and> progress_ratio 3 4 = Inr (Fin (round64 (1 - round64 (of_int 3 / of_int 4))))
    \<and> progress_ratio 4 4 = Inr (Fin 0) \<and> progress_ratio 0 4 = Inr (Fin 1)
    \<and> round64 (1 - round64 (of_int 3 / of_int 4)) \<le> round64 (1 - round64 (of_int 1 / of_int 4))"
proof -
  have h: "(0::int) < 4" "(0::int) \<le> 1" "(1::int) \<le> 3" "(3::int) \<le> 4" by simp_all
  from progress_ratio_spec [OF h] h show ?thesis by blast
qed

subsection \<open>Computations that may raise\<close>

lemma ebind_Inr [simp]: "ebind (Inr x) f = f x"
  by (simp add: ebind_def)

lemma ebind_Inl [simp]: "ebind (Inl e) f = Inl e"
  by (simp add: ebind_def)

lemma ebind_eq_Inl: "ebind m f = Inl e \<longleftrightarrow> m = Inl e \<or> (\<exists>x. m = Inr x \<and> f x = Inl e)"
  by (cases m) simp_all

lemma ebind_eq_Inr: "ebind m f = Inr y \<longleftrightarrow> (\<exists>x. m = Inr x \<and> f x = Inr y)"
  by (cases m) simp_all

lemma traverse_eq_Inl: "traverse f xs = Inl e \<Longrightarrow> \<exists>x\<in>set xs. f x = Inl e"
  by (induction xs) (auto simp: ebind_eq_Inl)

lemma traverse_eq_Inr: "traverse f xs = Inr ys \<Longrightarrow> list_all2 (\<lambda>x y. f x = Inr y) xs ys"
  by (induction xs arbitrary: ys) (auto simp: ebind_eq_Inr)

lemma traverse_ok:
  "(\<And>x. x \<in> set xs \<Longrightarrow> f x = Inr (g x)) \<Longrightarrow> traverse f xs = Inr (map g xs)"
  by (induction xs) simp_all

lemma seq_paint_eq_Inl: "seq_paint ss = Inl e \<Longrightarrow> Inl e \<in> set ss"
  by (induction ss) (auto simp: ebind_eq_Inl)

lemma seq_paint_ok: "seq_paint (map Inr pss) = Inr (concat pss)"
  by (induction pss) simp_all

subsection \<open>No division by zero\<close>

lemma int16_error: "int16 s = Inl e \<Longrightarrow> e = ValueError"
  by (auto simp: int16_def Let_def split: option.splits)

lemma hex_to_rgb_error:
  assumes "hex_to_rgb c = Inl e"
  shows "e = ValueError"
proof (cases c)
  case (Str s)
  with assms obtain xs where "traverse (\<lambda>i. int16 (take 2 (drop i xs))) [0, 2, 4] = Inl e"
    by (simp only: hex_to_rgb_def color.case Let_def)
  from traverse_eq_Inl [OF this] show ?thesis by (auto dest: int16_error)
next
  case (Tup t)
  with assms show ?thesis by (simp add: hex_to_rgb_def)
qed

lemma py_index_error: "py_index xs i = Inl e \<Longrightarrow> e = IndexError"
  by (auto simp: py_index_def split: if_splits)

lemma float_of_int_error: "float_of_int n = Inl e \<Longrightarrow> e = OverflowError"
  by (auto simp: float_of_int_def split: py_float.splits)

lemma float_of_int_Fin: "float_of_int n = Inr x \<Longrightarrow> \<exists>a. x = Fin a"
  by (cases "fl (of_int n)") (auto simp: float_of_int_def)

lemma py_int_error: "py_int x = Inl e \<Longrightarrow> e = OverflowError \<or> e = ValueError"
  by (cases x) auto

lemma py_truediv_error: "py_truediv a b = Inl e \<Longrightarrow> (e = ZeroDivisionError \<and> b = 0) \<or> e = OverflowError"
  by (auto simp: py_truediv_def split: if_splits py_float.splits)

lemma py_truediv_Fin: "py_truediv a b = Inr x \<Longrightarrow> \<exists>q. x = Fin q"
  by (cases "b = 0"; cases "fl (of_int a / of_int b)") (auto simp: py_truediv_def)

lemma range_upto_set: "y \<in> set (range_upto n) \<longleftrightarrow> 0 \<le> y \<and> y < n"
  by (auto simp: range_upto_def)

lemma range_down_set: "i \<in> set (range_down a b) \<longleftrightarrow> b < i \<and> i \<le> a"
  by (auto simp: range_down_def)

lemma gradient_channel_error:
  "gradient_channel tp bt ratio k = Inl e \<Longrightarrow> e \<noteq> ZeroDivisionError"
  by (auto simp: gradient_channel_def ebind_eq_Inl
      dest!: py_index_error float_of_int_error py_int_error)

lemma gradient_row_error:
  "gradient_row w h tp bt y = Inl ZeroDivisionError \<Longrightarrow> h = 0"
  by (auto simp: gradient_row_def ebind_eq_Inl dest!: py_truediv_error gradient_channel_error)

lemma draw_gradient_error: "draw_gradient w h c0 c1 \<noteq> Inl ZeroDivisionError"
proof
  assume "draw_gradient w h c0 c1 = Inl ZeroDivisionError"
  then obtain tp bt where "traverse (gradient_row w h tp bt) (range_upto h) = Inl ZeroDivisionError"
    by (auto simp: draw_gradient_def ebind_eq_Inl dest!: hex_to_rgb_error)
  from traverse_eq_Inl [OF this] obtain y where "y \<in> set (range_upto h)"
    and "gradient_row w h tp bt y = Inl ZeroDivisionError" by blast
  then show False using gradient_row_error [of w h tp bt y] by (simp add: range_upto_set)
qed

lemma glow_layer_error: "glow_layer str x y fnt rgb i = Inl ZeroDivisionError \<Longrightarrow> i = 0"
  by (auto simp: glow_layer_def ebind_eq_Inl dest!: py_truediv_error py_int_error py_index_error)

lemma draw_glow_error: "draw_glow str x y fnt c layers \<noteq> Inl ZeroDivisionError"
proof
  assume "draw_glow str x y fnt c layers = Inl ZeroDivisionError"
  then obtain rgb where
    "traverse (glow_layer str x y fnt rgb) (range_down layers 0) = Inl ZeroDivisionError"
    by (auto simp: draw_glow_def ebind_eq_Inl dest!: hex_to_rgb_error)
  from traverse_eq_Inl [OF this] obtain i where "i \<in> set (range_down layers 0)"
    and "glow_layer str x y fnt rgb i = Inl ZeroDivisionError" by blast
  then show False using glow_layer_error [of str x y fnt rgb i] by (simp add: range_down_set)
qed

lemma new_image_step_error: "new_image_step w h bg \<noteq> Inl ZeroDivisionError"
  by (auto simp: new_image_step_def ebind_eq_Inl dest!: hex_to_rgb_error)

lemma gradient_bg_block_error: "gradient_bg_block w h enabled colors \<noteq> Inl ZeroDivisionError"
  using draw_gradient_error
  by (auto simp: gradient_bg_block_def ebind_eq_Inl dest!: py_index_error)

lemma glow_block_error: "glow_block enabled str cx cy fnt c layers \<noteq> Inl ZeroDivisionError"
  using draw_glow_error by (simp add: glow_block_def)

lemma main_text_step_error: "main_text_step str cx cy fnt c \<noteq> Inl ZeroDivisionError"
  by (auto simp: main_text_step_def ebind_eq_Inl dest!: hex_to_rgb_error)

lemma border_block_error: "border_block style w h \<noteq> Inl ZeroDivisionError"
  by (auto simp: border_block_def Let_def ebind_eq_Inl dest!: hex_to_rgb_error)

lemma rounded_bg_block_error: "rounded_bg_block style cx cy tw th \<noteq> Inl ZeroDivisionError"
  by (auto simp: rounded_bg_block_def Let_def ebind_eq_Inl dest!: hex_to_rgb_error)

lemma circle_progress_block_error:
  "circle_progress_block style w h cx cy progress \<noteq> Inl ZeroDivisionError"
  by (auto simp: circle_progress_block_def draw_circle_progress_def Let_def ebind_eq_Inl
      dest!: hex_to_rgb_error)

lemma labels_block_error: "labels_block tb style cx cy tw th hh mm \<noteq> Inl ZeroDivisionError"
  by (auto simp: labels_block_def Let_def ebind_eq_Inl dest!: hex_to_rgb_error)

lemma progress_bar_block_error: "progress_bar_block style w h progress \<noteq> Inl ZeroDivisionError"
  by (auto simp: progress_bar_block_def Let_def ebind_eq_Inl
      dest!: hex_to_rgb_error float_of_int_error py_int_error)

lemma hour_numbers_block_error: "hour_numbers_block style cx cy radius \<noteq> Inl ZeroDivisionError"
  by (auto simp: hour_numbers_block_def ebind_eq_Inl dest!: hex_to_rgb_error)

lemma center_dot_block_error: "center_dot_block style cx cy \<noteq> Inl ZeroDivisionError"
  by (auto simp: center_dot_block_def Let_def ebind_eq_Inl dest!: hex_to_rgb_error)

lemma progress_ratio_error: "progress_ratio r t \<noteq> Inl ZeroDivisionError"
  by (auto simp: progress_ratio_def ebind_eq_Inl dest!: py_truediv_error)

lemma remaining_ratio_error: "remaining_ratio r t \<noteq> Inl ZeroDivisionError"
  by (auto simp: remaining_ratio_def dest!: py_truediv_error)

lemmas block_errors =
  new_image_step_error gradient_bg_block_error glow_block_error main_text_step_error
  border_block_error rounded_bg_block_error circle_progress_block_error labels_block_error
  progress_bar_block_error hour_numbers_block_error center_dot_block_error

lemma render_frame_no_zero_division:
  "render_frame tb style r t \<noteq> Inl ZeroDivisionError"
proof
  assume "render_frame tb style r t = Inl ZeroDivisionError"
  then obtain ss where "seq_paint ss = Inl ZeroDivisionError"
    and "\<forall>s\<in>set ss. s \<noteq> Inl ZeroDivisionError"
    using progress_ratio_error [of r t]
    by (auto simp: render_frame_def Let_def ebind_eq_Inl block_errors)
  then show False using seq_paint_eq_Inl by blast
qed

lemma render_circle_frame_no_zero_division:
  "render_circle_frame style r t \<noteq> Inl ZeroDivisionError"
proof
  assume "render_circle_frame style r t = Inl ZeroDivisionError"
  then consider ss where "seq_paint ss = Inl ZeroDivisionError"
    and "\<forall>s\<in>set ss. s \<noteq> Inl ZeroDivisionError"
    using remaining_ratio_error [of r t]
    by (auto simp: render_circle_frame_def Let_def ebind_eq_Inl block_errors
        dest!: hex_to_rgb_error)
  then show False using seq_paint_eq_Inl by cases blast
qed

text \<open>
  Claim C6.  With a total duration of zero, whatever the remaining seconds, the progress
  of \<open>render_frame\<close> is \<open>1.0\<close> and the remaining ratio of \<open>render_circle_frame\<close> is \<open>0.0\<close>,
  and neither renderer ends with a division by zero.
\<close>

theorem zero_total_duration:
  "progress_ratio r 0 = Inr (Fin 1)
    \<and> remaining_ratio r 0 = Inr (Fin 0)
    \<and> render_frame tb style r 0 \<noteq> Inl ZeroDivisionError
    \<and> render_circle_frame cstyle r 0 \<noteq> Inl ZeroDivisionError"
  using render_frame_no_zero_division [of tb style r 0]
    render_circle_frame_no_zero_division [of cstyle r 0]
  by (simp add: progress_ratio_def remaining_ratio_def)

end
